theory Spec2Isabelle
  imports Complex_Main "HOL-Library.Char_ord" "HOL-Library.List_Lexorder"
begin

section \<open>Text: Python strings, \<^verbatim>\<open>str.lower\<close>, \<^verbatim>\<open>str.strip\<close>\<close>

text \<open>
  A Python string is modelled as a \<open>string\<close>, a list of characters with code points
  \<open>0\<close> to \<open>255\<close> (Latin-1): enough for the Spanish labels the patterns are written for
  (\<open>CHR 0xF3\<close> is o with acute accent, \<open>CHR 0xED\<close> i with acute, \<open>CHR 0xE9\<close> e with acute).
  On this range \<^verbatim>\<open>str.isspace\<close>, the class \<^verbatim>\<open>\s\<close> and what \<^verbatim>\<open>strip()\<close> removes are the same
  twelve characters, \<^verbatim>\<open>\d\<close> is \<open>0\<close> to \<open>9\<close>, and \<^verbatim>\<open>lower()\<close> changes exactly the letters
  \<open>A\<close> to \<open>Z\<close> (65 to 90) and the accented capitals 192 to 222 without the sign 215, each
  moved up by 32.
\<close>

definition whitespace :: "char list" where
  "whitespace = [CHR 0x09, CHR 0x0A, CHR 0x0B, CHR 0x0C, CHR 0x0D, CHR 0x1C, CHR 0x1D,
                 CHR 0x1E, CHR 0x1F, CHR 0x20, CHR 0x85, CHR 0xA0]"

definition digits :: "char list" where
  "digits = ''0123456789''"

definition is_space :: "char \<Rightarrow> bool" where
  "is_space c = (c \<in> set whitespace)"

definition lower_char :: "char \<Rightarrow> char" where
  "lower_char c =
     (let n = (of_char c :: nat)
      in if (65 \<le> n \<and> n \<le> 90) \<or> (192 \<le> n \<and> n \<le> 222 \<and> n \<noteq> 215)
         then char_of (n + 32) else c)"

definition is_word :: "char \<Rightarrow> bool" where
  "is_word c =
     (let n = (of_char c :: nat)
      in (48 \<le> n \<and> n \<le> 57) \<or> (65 \<le> n \<and> n \<le> 90) \<or> n = 95 \<or> (97 \<le> n \<and> n \<le> 122)
         \<or> n \<in> {170, 178, 179, 181, 185, 186, 188, 189, 190}
         \<or> (192 \<le> n \<and> n \<noteq> 215 \<and> n \<noteq> 247))"

definition lower :: "string \<Rightarrow> string" where
  "lower s = map lower_char s"

definition strip :: "string \<Rightarrow> string" where
  "strip s = rev (dropWhile is_space (rev (dropWhile is_space s)))"

text \<open>\<^verbatim>\<open>' ' in s\<close> and \<^verbatim>\<open>s.split(' ', 1)[-1]\<close>: the text after the first space character.\<close>

definition has_space :: "string \<Rightarrow> bool" where
  "has_space s = (CHR '' '' \<in> set s)"

definition after_first_space :: "string \<Rightarrow> string" where
  "after_first_space s = tl (dropWhile (\<lambda>c. c \<noteq> CHR '' '') s)"

text \<open>\<^verbatim>\<open>str(n)\<close> for a Python int.\<close>

function pos_str :: "int \<Rightarrow> string" where
  "pos_str n = (if n < 10 then [digits ! nat n] else pos_str (n div 10) @ [digits ! nat (n mod 10)])"
  by pat_completeness auto
termination
  by (relation "measure nat") auto

declare pos_str.simps [simp del]

definition int_str :: "int \<Rightarrow> string" where
  "int_str i = (if i < 0 then CHR ''-'' # pos_str (- i) else pos_str i)"


section \<open>Regular expressions: the part of Python's \<^verbatim>\<open>re\<close> the patterns use\<close>

text \<open>
  The patterns of the repository use literals, character classes (\<^verbatim>\<open>[..]\<close>, \<^verbatim>\<open>\s\<close>, \<^verbatim>\<open>\d\<close>),
  concatenation, alternation, \<^verbatim>\<open>?\<close>, \<^verbatim>\<open>*\<close>, \<^verbatim>\<open>+\<close>, \<^verbatim>\<open>{2}\<close>, the anchors \<^verbatim>\<open>^\<close> and \<^verbatim>\<open>$\<close>
  and the word boundary \<^verbatim>\<open>\b\<close>. A pattern is a value of \<open>regex\<close>; \<open>Opt\<close>, \<open>Plus\<close> and a
  fixed repetition are written with the constructors below.

  \<open>rx ic r p s\<close> runs \<open>r\<close> on the text \<open>s\<close> that follows the character \<open>p\<close> (\<open>None\<close> at
  the start of the string) and returns every way it can match, in the order a
  backtracking matcher tries them (first alternative first, longest repetition first):
  each result is the last character consumed and the text left. \<open>ic\<close> is
  \<^verbatim>\<open>re.IGNORECASE\<close>. A round of \<^verbatim>\<open>*\<close> that consumes nothing is not repeated.
\<close>

datatype regex =
    Eps
  | Lit char
  | Cls "char list"
  | Seq regex regex
  | Alt regex regex
  | Star regex
  | Bol
  | Eol
  | WordB

definition same_char :: "bool \<Rightarrow> char \<Rightarrow> char \<Rightarrow> bool" where
  "same_char ic c d = (if ic then lower_char c = lower_char d else c = d)"

definition in_class :: "bool \<Rightarrow> char list \<Rightarrow> char \<Rightarrow> bool" where
  "in_class ic cs d = (if ic then lower_char d \<in> set (map lower_char cs) else d \<in> set cs)"

definition word_boundary :: "char option \<Rightarrow> string \<Rightarrow> bool" where
  "word_boundary p s =
     ((case p of None \<Rightarrow> False | Some c \<Rightarrow> is_word c)
        \<noteq> (case s of [] \<Rightarrow> False | d # _ \<Rightarrow> is_word d))"

fun rx :: "bool \<Rightarrow> regex \<Rightarrow> char option \<Rightarrow> string \<Rightarrow> (char option \<times> string) list" where
  "rx ic Eps p s = [(p, s)]"
| "rx ic (Lit c) p [] = []"
| "rx ic (Lit c) p (d # ds) = (if same_char ic c d then [(Some d, ds)] else [])"
| "rx ic (Cls cs) p [] = []"
| "rx ic (Cls cs) p (d # ds) = (if in_class ic cs d then [(Some d, ds)] else [])"
| "rx ic (Seq a b) p s = concat (map (\<lambda>(q, t). rx ic b q t) (rx ic a p s))"
| "rx ic (Alt a b) p s = rx ic a p s @ rx ic b p s"
| "rx ic (Star a) p s =
     concat (map (\<lambda>(q, t). if length t < length s then rx ic (Star a) q t else [])
                 (rx ic a p s)) @ [(p, s)]"
| "rx ic Bol p s = (if p = None then [(p, s)] else [])"
| "rx ic Eol p s = (if s = [] \<or> s = [CHR 0x0A] then [(p, s)] else [])"
| "rx ic WordB p s = (if word_boundary p s then [(p, s)] else [])"

text \<open>
  \<^verbatim>\<open>re.search\<close> tries every start position from left to right; \<^verbatim>\<open>re.match\<close> only the
  start of the string.
\<close>

fun search_from :: "bool \<Rightarrow> regex \<Rightarrow> char option \<Rightarrow> string \<Rightarrow> bool" where
  "search_from ic r p [] = (rx ic r p [] \<noteq> [])"
| "search_from ic r p (c # cs) = (rx ic r p (c # cs) \<noteq> [] \<or> search_from ic r (Some c) cs)"

definition re_search :: "bool \<Rightarrow> regex \<Rightarrow> string \<Rightarrow> bool" where
  "re_search ic r s = search_from ic r None s"

definition re_match :: "bool \<Rightarrow> regex \<Rightarrow> string \<Rightarrow> bool" where
  "re_match ic r s = (rx ic r None s \<noteq> [])"

text \<open>
  \<^verbatim>\<open>re.sub(pattern, '', s)\<close>: from left to right, the first non-empty match at a position
  is removed and the scan goes on after it; where there is none, the character is kept.
  (An empty match is replaced by the empty string, which changes nothing.)
\<close>

function sub_from :: "regex \<Rightarrow> char option \<Rightarrow> string \<Rightarrow> string" where
  "sub_from r p s =
     (case filter (\<lambda>(q, t). length t < length s) (rx False r p s) of
        (q, t) # _ \<Rightarrow> sub_from r q t
      | [] \<Rightarrow> (case s of [] \<Rightarrow> [] | c # cs \<Rightarrow> c # sub_from r (Some c) cs))"
  by pat_completeness auto
termination
proof (relation "measure (\<lambda>(r, p, s). length s)")
  show "wf (measure (\<lambda>(r, p, s). length s))" by simp
next
  fix r :: regex and p :: "char option" and s :: string and x21 x22 x y
  assume "filter (\<lambda>(q, t). length t < length s) (rx False r p s) = x21 # x22" "(x, y) = x21"
  then have "(x, y) \<in> set (filter (\<lambda>(q, t). length t < length s) (rx False r p s))"
    by simp
  then show "((r, x, y), r, p, s) \<in> measure (\<lambda>(r, p, s). length s)"
    by simp
next
  fix r :: regex and p :: "char option" and s :: string and x21 x22
  assume "s = x21 # x22"
  then show "((r, Some x21, x22), r, p, s) \<in> measure (\<lambda>(r, p, s). length s)"
    by simp
qed

definition re_sub_empty :: "regex \<Rightarrow> string \<Rightarrow> string" where
  "re_sub_empty r s = sub_from r None s"

text \<open>Derived forms: \<^verbatim>\<open>r?\<close>, \<^verbatim>\<open>r+\<close>, a sequence of parts, a literal word.\<close>

definition Opt :: "regex \<Rightarrow> regex" where
  "Opt r = Alt r Eps"

definition Plus :: "regex \<Rightarrow> regex" where
  "Plus r = Seq r (Star r)"

definition seqs :: "regex list \<Rightarrow> regex" where
  "seqs rs = foldr Seq rs Eps"

definition str :: "string \<Rightarrow> regex" where
  "str s = seqs (map Lit s)"

text \<open>\<^verbatim>\<open>\s*\<close>, \<^verbatim>\<open>\s+\<close>, \<^verbatim>\<open>\d\<close>, \<^verbatim>\<open>\.?\<close>, \<^verbatim>\<open>\)?\<close>, and the classes of
  \<open>o\<close>, \<open>i\<close> and \<open>e\<close> with or without the acute accent.\<close>

definition ws0 :: regex where
  "ws0 = Star (Cls whitespace)"

definition ws1 :: regex where
  "ws1 = Plus (Cls whitespace)"

definition dig :: regex where
  "dig = Cls digits"

definition dot_opt :: regex where
  "dot_opt = Opt (Lit CHR ''.'')"

definition paren_opt :: regex where
  "paren_opt = Opt (Lit CHR '')'')"

definition o_acute :: regex where
  "o_acute = Cls [CHR ''o'', CHR 0xF3]"

definition i_acute :: regex where
  "i_acute = Cls [CHR ''i'', CHR 0xED]"

definition e_acute :: regex where
  "e_acute = Cls [CHR ''e'', CHR 0xE9]"



section \<open>Pattern registry: \<open>config/kpi_mappings.py\<close>\<close>

text \<open>
  One entry of \<^verbatim>\<open>KPI_MAPPINGS\<close>. The extractor reads it with \<^verbatim>\<open>config.get('patterns', [])\<close>,
  \<^verbatim>\<open>config.get('sign', 1)\<close>, \<^verbatim>\<open>config.get('required', False)\<close> and
  \<^verbatim>\<open>config.get('default', 0)\<close>; an entry without the key \<^verbatim>\<open>default\<close> has the default \<open>0\<close>.
\<close>

record config =
  patterns :: "regex list"
  sign :: int
  required :: bool
  default_value :: int

text \<open>
  The patterns, in the order of the source; each is the regular expression of the source
  written part by part (\<^verbatim>\<open>\s+\<close> is \<open>ws1\<close>, \<^verbatim>\<open>\s*\<close> is \<open>ws0\<close>, \<^verbatim>\<open>\.?\<close> is \<open>dot_opt\<close>,
  \<^verbatim>\<open>\)?\<close> is \<open>paren_opt\<close>, \<^verbatim>\<open>\d+\<close> is \<open>Plus dig\<close>, \<^verbatim>\<open>\b\<close> is \<open>WordB\<close>).
\<close>

definition ingresos_patterns :: "regex list" where
  "ingresos_patterns =
     [seqs [str ''1'', dot_opt, ws0, str ''importe'', ws1, str ''neto'', ws1, str ''de'', ws1, str ''la'', ws1, str ''cifra'', ws1, str ''de'', ws1, str ''negocios''],
      seqs [str ''importe'', ws1, str ''neto'', ws1, str ''cifra'', ws1, str ''negocios''],
      seqs [str ''cifra'', ws1, str ''de'', ws1, str ''negocios''],
      seqs [str ''ventas'', ws1, str ''netas''],
      seqs [str ''ingresos'', ws1, str ''netos'']]"

definition aprovisionamientos_patterns :: "regex list" where
  "aprovisionamientos_patterns =
     [seqs [str ''4'', dot_opt, ws0, str ''aprovisionamientos''],
      seqs [str ''aprovisionamientos''],
      seqs [str ''compras'', ws1, str ''de'', ws1, str ''mercader'', i_acute, str ''as'']]"

definition gastos_personal_patterns :: "regex list" where
  "gastos_personal_patterns =
     [seqs [str ''6'', dot_opt, ws0, str ''gastos'', ws1, str ''de'', ws1, str ''personal''],
      seqs [str ''gastos'', ws1, str ''personal''],
      seqs [str ''gastos'', ws1, str ''de'', ws1, str ''personal'']]"

definition otros_gastos_patterns :: "regex list" where
  "otros_gastos_patterns =
     [seqs [str ''7'', dot_opt, ws0, str ''otros'', ws1, str ''gastos'', ws1, str ''de'', ws1, str ''explotaci'', o_acute, str ''n''],
      seqs [str ''otros'', ws1, str ''gastos'', ws1, str ''explotaci'', o_acute, str ''n''],
      seqs [str ''otros'', ws1, str ''gastos'', ws1, str ''de'', ws1, str ''explotaci'', o_acute, str ''n'']]"

definition amortizacion_patterns :: "regex list" where
  "amortizacion_patterns =
     [seqs [str ''8'', dot_opt, ws0, str ''amortizaci'', o_acute, str ''n'', ws1, str ''del'', ws1, str ''inmovilizado''],
      seqs [str ''amortizaci'', o_acute, str ''n'', ws1, str ''inmovilizado''],
      seqs [str ''amortizaci'', o_acute, str ''n'']]"

definition ebitda_patterns :: "regex list" where
  "ebitda_patterns =
     [seqs [str ''a'', paren_opt, ws0, str ''resultado'', ws1, str ''de'', ws1, str ''explotacion''],
      seqs [str ''a'', paren_opt, ws0, str ''resultado'', ws1, str ''de'', ws1, str ''explotaci'', o_acute, str ''n''],
      seqs [Plus dig, dot_opt, ws0, str ''resultado'', ws1, str ''de'', ws1, str ''explotaci'', o_acute, str ''n''],
      seqs [str ''resultado'', ws1, str ''de'', ws1, str ''explotacion''],
      seqs [str ''resultado'', ws1, str ''de'', ws1, str ''explotaci'', o_acute, str ''n''],
      seqs [str ''resultado'', ws1, str ''explotaci'', o_acute, str ''n''],
      seqs [str ''ebitda''],
      seqs [str ''ebit'', WordB],
      seqs [str ''beneficio'', ws1, str ''operativo'']]"

definition resultado_financiero_patterns :: "regex list" where
  "resultado_financiero_patterns =
     [seqs [str ''b'', paren_opt, ws0, str ''resultado'', ws1, str ''financiero''],
      seqs [str ''resultado'', ws1, str ''financiero'']]"

definition resultado_neto_patterns :: "regex list" where
  "resultado_neto_patterns =
     [seqs [str ''d'', paren_opt, ws0, str ''resultado'', ws1, str ''del'', ws1, str ''ejercicio''],
      seqs [Plus dig, dot_opt, ws0, str ''resultado'', ws1, str ''del'', ws1, str ''ejercicio''],
      seqs [str ''resultado'', ws1, str ''del'', ws1, str ''ejercicio''],
      seqs [str ''beneficio'', ws1, str ''neto''],
      seqs [str ''resultado'', ws1, str ''neto''],
      seqs [str ''beneficio'', ws0, str ''/'', ws0, str ''p'', e_acute, str ''rdida'', ws1, str ''del'', ws1, str ''ejercicio''],
      seqs [str ''resultado'', ws1, str ''despu'', e_acute, str ''s'', ws1, str ''de'', ws1, str ''impuestos'']]"

definition otros_ingresos_patterns :: "regex list" where
  "otros_ingresos_patterns =
     [seqs [str ''5'', dot_opt, ws0, str ''otros'', ws1, str ''ingresos'', ws1, str ''de'', ws1, str ''explotaci'', o_acute, str ''n''],
      seqs [str ''otros'', ws1, str ''ingresos'', ws1, str ''explotaci'', o_acute, str ''n''],
      seqs [str ''otros'', ws1, str ''ingresos'']]"

definition gastos_financieros_patterns :: "regex list" where
  "gastos_financieros_patterns =
     [seqs [str ''14'', dot_opt, ws0, str ''gastos'', ws1, str ''financieros''],
      seqs [str ''gastos'', ws1, str ''financieros'']]"

text \<open>\<^verbatim>\<open>KPI_MAPPINGS\<close>: a dict, iterated in insertion order.\<close>

definition KPI_MAPPINGS :: "(string \<times> config) list" where
  "KPI_MAPPINGS =
     [(''ingresos'',
        \<lparr>patterns = ingresos_patterns, sign = 1, required = True, default_value = 0\<rparr>),
      (''aprovisionamientos'',
        \<lparr>patterns = aprovisionamientos_patterns, sign = - 1, required = True, default_value = 0\<rparr>),
      (''gastos_personal'',
        \<lparr>patterns = gastos_personal_patterns, sign = - 1, required = True, default_value = 0\<rparr>),
      (''otros_gastos'',
        \<lparr>patterns = otros_gastos_patterns, sign = - 1, required = True, default_value = 0\<rparr>),
      (''amortizacion'',
        \<lparr>patterns = amortizacion_patterns, sign = - 1, required = True, default_value = 0\<rparr>),
      (''ebitda'',
        \<lparr>patterns = ebitda_patterns, sign = 1, required = True, default_value = 0\<rparr>),
      (''resultado_financiero'',
        \<lparr>patterns = resultado_financiero_patterns, sign = 1, required = False, default_value = 0\<rparr>),
      (''resultado_neto'',
        \<lparr>patterns = resultado_neto_patterns, sign = 1, required = True, default_value = 0\<rparr>),
      (''otros_ingresos'',
        \<lparr>patterns = otros_ingresos_patterns, sign = 1, required = False, default_value = 0\<rparr>),
      (''gastos_financieros'',
        \<lparr>patterns = gastos_financieros_patterns, sign = - 1, required = False, default_value = 0\<rparr>)]"

text \<open>\<^verbatim>\<open>DETAILED_MAPPINGS\<close>.\<close>

definition servicios_parent_pattern :: regex where
  "servicios_parent_pattern =
     seqs [str ''705'', ws1, str ''PRESTACIONES'', ws1, str ''DE'', ws1, str ''SERVICIOS'']"

definition servicios_item_pattern :: regex where
  "servicios_item_pattern =
     seqs [Bol, str ''705'', Lit CHR ''.'', str ''0'', Lit CHR ''.'', str ''0'', Lit CHR ''.'']"

definition servicios_stop_pattern :: regex where
  "servicios_stop_pattern =
     seqs [str ''2'', Lit CHR ''.'', ws0, str ''Variaci'', o_acute, str ''n'']"

definition aprovisionamientos_item_pattern :: regex where
  "aprovisionamientos_item_pattern =
     seqs [Bol, str ''602'', Lit CHR ''.'', str ''0'', Lit CHR ''.'', str ''0'', Lit CHR ''.'']"

definition personal_categories :: "(regex \<times> string) list" where
  "personal_categories =
     [(seqs [str ''640'', ws1, str ''SUELDOS''],
         ''Sueldos y Salarios''),
      (seqs [str ''642'', ws1, str ''SEGURIDAD'', ws1, str ''SOCIAL''],
         ''Seguridad Social''),
      (seqs [str ''641'', ws1, str ''INDEMNIZACIONES''],
         ''Indemnizaciones'')]"

definition otros_gastos_categories :: "(regex \<times> string) list" where
  "otros_gastos_categories =
     [(seqs [str ''622'', ws1, str ''REPARACIONES''],
         ''Reparaciones y Mantenimiento''),
      (seqs [str ''623'', ws1, str ''SERVICIOS'', ws1, str ''DE'', ws1, str ''PROFESIONALES''],
         ''Servicios Profesionales''),
      (seqs [str ''625'', ws1, str ''PRIMAS'', ws1, str ''DE'', ws1, str ''SEGUROS''],
         ''Seguros''),
      (seqs [str ''627'', ws1, str ''PUBLICIDAD''],
         ''Publicidad y Marketing''),
      (seqs [str ''628'', ws1, str ''SUMINISTROS''],
         ''Suministros''),
      (seqs [str ''629'', ws1, str ''OTROS'', ws1, str ''SERVICIOS''],
         ''Otros Servicios''),
      (seqs [str ''631'', ws1, str ''OTROS'', ws1, str ''TRIBUTOS''],
         ''Tributos'')]"

text \<open>
  \<^verbatim>\<open>match_pattern\<close>: the text is lowered and stripped, then searched for each pattern in turn
  with \<^verbatim>\<open>re.IGNORECASE\<close>.
\<close>

definition match_pattern :: "string \<Rightarrow> regex list \<Rightarrow> bool" where
  "match_pattern text pats =
     (let text_lower = strip (lower text)
      in list_ex (\<lambda>pattern. re_search True pattern text_lower) pats)"


section \<open>Cells, rows and frames\<close>

text \<open>
  A spreadsheet cell as pandas delivers it: a Python \<^verbatim>\<open>str\<close>, an \<^verbatim>\<open>int\<close>, a \<^verbatim>\<open>float\<close> (its
  value a real number), or NaN for an empty cell.
\<close>

datatype cell = Txt string | IntC int | FloatC real | NaN

text \<open>The exceptions the modelled code raises.\<close>

datatype error = DataLoadError | ValidationError | ValueError | TypeError

text \<open>
  Two library functions are not reproduced: how Python formats a float (\<^verbatim>\<open>str(x)\<close>) and
  which strings \<^verbatim>\<open>pd.to_numeric\<close> reads as a number. Both are parameters of the model, and
  every theorem below holds for every choice of them.
\<close>

record pylib =
  float_str :: "real \<Rightarrow> string"
  parse_number :: "string \<Rightarrow> real option"

text \<open>\<^verbatim>\<open>str(value)\<close>\<close>

definition py_str :: "pylib \<Rightarrow> cell \<Rightarrow> string" where
  "py_str E c =
     (case c of Txt s \<Rightarrow> s | IntC i \<Rightarrow> int_str i | FloatC r \<Rightarrow> float_str E r | NaN \<Rightarrow> ''nan'')"

text \<open>\<^verbatim>\<open>pd.isna(value)\<close>\<close>

definition isna :: "cell \<Rightarrow> bool" where
  "isna c = (c = NaN)"

text \<open>\<^verbatim>\<open>abs(value)\<close>: a \<^verbatim>\<open>TypeError\<close> on a string, NaN on NaN.\<close>

definition py_abs :: "cell \<Rightarrow> error + cell" where
  "py_abs c =
     (case c of
        Txt s \<Rightarrow> Inl TypeError
      | IntC i \<Rightarrow> Inr (IntC \<bar>i\<bar>)
      | FloatC r \<Rightarrow> Inr (FloatC \<bar>r\<bar>)
      | NaN \<Rightarrow> Inr NaN)"

text \<open>A stored value is a non-negative number.\<close>

definition non_negative :: "cell \<Rightarrow> bool" where
  "non_negative c =
     (case c of Txt s \<Rightarrow> False | IntC i \<Rightarrow> 0 \<le> i | FloatC r \<Rightarrow> 0 \<le> r | NaN \<Rightarrow> False)"

text \<open>A cell is a number (not text, not NaN).\<close>

definition is_number :: "cell \<Rightarrow> bool" where
  "is_number c = (case c of Txt s \<Rightarrow> False | IntC i \<Rightarrow> True | FloatC r \<Rightarrow> True | NaN \<Rightarrow> False)"

text \<open>
  A processed DataFrame: column labels (strings, after the loader has renamed them) and
  the rows of cells. \<^verbatim>\<open>iterrows()\<close> yields each row as a Series, the labels paired with
  the cells; \<^verbatim>\<open>row.index\<close> is the labels and \<^verbatim>\<open>row.get(col, d)\<close> a lookup with default.
  Column labels are distinct in every frame the loaders build.
\<close>

record frame =
  columns :: "string list"
  cells :: "cell list list"

type_synonym row = "(string \<times> cell) list"

definition iterrows :: "frame \<Rightarrow> row list" where
  "iterrows f = map (zip (columns f)) (cells f)"

definition row_index :: "row \<Rightarrow> string list" where
  "row_index r = map fst r"

definition row_get :: "row \<Rightarrow> string \<Rightarrow> cell \<Rightarrow> cell" where
  "row_get r col d = (case map_of r col of None \<Rightarrow> d | Some v \<Rightarrow> v)"

text \<open>A dict from year to value, and a dict from name to such dicts.\<close>

type_synonym year_cells = "string \<rightharpoonup> cell"
type_synonym kpi_dict = "string \<rightharpoonup> year_cells"

text \<open>
  \<^verbatim>\<open>{year: f(year) for year in years}\<close>, where \<open>f\<close> may raise: the years are visited in
  order and the first exception ends the loop.
\<close>

fun collect :: "(string \<Rightarrow> error + cell) \<Rightarrow> string list \<Rightarrow> year_cells \<Rightarrow> error + year_cells" where
  "collect f [] acc = Inr acc"
| "collect f (year # ys) acc =
     (case f year of Inl e \<Rightarrow> Inl e | Inr v \<Rightarrow> collect f ys (acc(year \<mapsto> v)))"

text \<open>The same where \<open>f\<close> cannot raise.\<close>

definition year_dict :: "(string \<Rightarrow> cell) \<Rightarrow> string list \<Rightarrow> year_cells" where
  "year_dict f ys = fold (\<lambda>year acc. acc(year \<mapsto> f year)) ys Map.empty"


section \<open>Line-item extractor: \<open>utils/kpi_extractor.py\<close>\<close>

text \<open>The fields of a \<^verbatim>\<open>KPIExtractor\<close> and its constructor.\<close>

record extractor =
  x_df :: frame
  x_years :: "string list"
  x_kpis :: kpi_dict
  x_not_found :: "string list"
  x_found :: "string list"

definition KPIExtractor :: "frame \<Rightarrow> string list \<Rightarrow> extractor" where
  "KPIExtractor f ys =
     \<lparr>x_df = f, x_years = ys, x_kpis = Map.empty, x_not_found = [], x_found = []\<rparr>"

text \<open>
  The inner loop of \<^verbatim>\<open>_find_kpi\<close>: some column that is not a year column holds a cell whose
  text is not empty and matches one of the patterns. Each cell is tested on its own.
\<close>

definition row_found :: "pylib \<Rightarrow> string list \<Rightarrow> regex list \<Rightarrow> row \<Rightarrow> bool" where
  "row_found E ys pats r =
     list_ex (\<lambda>col. col \<notin> set ys \<and>
                (let cell_value = py_str E (row_get r col (Txt ''''))
                 in cell_value \<noteq> [] \<and> match_pattern cell_value pats))
             (row_index r)"

text \<open>The value stored for one year of the matched row.\<close>

definition kpi_value :: "int \<Rightarrow> row \<Rightarrow> string \<Rightarrow> error + cell" where
  "kpi_value sg r year =
     (case map_of r year of
        None \<Rightarrow> Inr (IntC 0)
      | Some v \<Rightarrow>
          (let v0 = (if isna v then IntC 0 else v)
           in if sg = - 1 then py_abs v0 else Inr v0))"

text \<open>\<^verbatim>\<open>_find_kpi\<close>: the rows in order; the first row found gives the result.\<close>

fun find_kpi :: "pylib \<Rightarrow> string list \<Rightarrow> config \<Rightarrow> row list \<Rightarrow> error + year_cells option" where
  "find_kpi E ys cfg [] = Inr None"
| "find_kpi E ys cfg (r # rs) =
     (if row_found E ys (patterns cfg) r
      then (case collect (kpi_value (sign cfg) r) ys Map.empty of
              Inl e \<Rightarrow> Inl e
            | Inr result \<Rightarrow> Inr (Some result))
      else find_kpi E ys cfg rs)"

text \<open>One round of the loop of \<^verbatim>\<open>extract_all\<close>, and the loop over a registry.\<close>

definition extract_one :: "pylib \<Rightarrow> string \<Rightarrow> config \<Rightarrow> extractor \<Rightarrow> error + extractor" where
  "extract_one E kpi_name cfg st =
     (case find_kpi E (x_years st) cfg (iterrows (x_df st)) of
        Inl e \<Rightarrow> Inl e
      | Inr (Some v) \<Rightarrow>
          Inr (st\<lparr>x_kpis := (x_kpis st)(kpi_name \<mapsto> v), x_found := x_found st @ [kpi_name]\<rparr>)
      | Inr None \<Rightarrow>
          (if required cfg
           then Inr (st\<lparr>x_not_found := x_not_found st @ [kpi_name]\<rparr>)
           else Inr (st\<lparr>x_kpis := (x_kpis st)
                   (kpi_name \<mapsto> year_dict (\<lambda>year. IntC (default_value cfg)) (x_years st))\<rparr>)))"

fun extract_loop :: "pylib \<Rightarrow> (string \<times> config) list \<Rightarrow> extractor \<Rightarrow> error + extractor" where
  "extract_loop E [] st = Inr st"
| "extract_loop E ((kpi_name, cfg) # rest) st =
     (case extract_one E kpi_name cfg st of
        Inl e \<Rightarrow> Inl e
      | Inr st' \<Rightarrow> extract_loop E rest st')"

text \<open>
  \<^verbatim>\<open>extract_all\<close> returns \<^verbatim>\<open>self.kpis\<close>; the model returns the extractor, whose field \<open>x_kpis\<close>
  is that dict and whose field \<open>x_not_found\<close> is what \<^verbatim>\<open>get_missing_kpis\<close> returns.
\<close>

definition extract_all :: "pylib \<Rightarrow> extractor \<Rightarrow> error + extractor" where
  "extract_all E st = extract_loop E KPI_MAPPINGS st"

definition get_missing_kpis :: "extractor \<Rightarrow> string list" where
  "get_missing_kpis st = x_not_found st"


section \<open>Detail-section extractor: \<open>utils/kpi_extractor.py\<close>\<close>

text \<open>\<^verbatim>\<open>concepto = str(row.get('Concepto', ''))\<close>\<close>

definition concepto_of :: "pylib \<Rightarrow> row \<Rightarrow> string" where
  "concepto_of E r = py_str E (row_get r ''Concepto'' (Txt ''''))"

text \<open>
  The name of an item row: the pattern removed, the rest stripped, and, if a space is
  left in it, what follows the first space.
\<close>

definition item_name :: "regex \<Rightarrow> string \<Rightarrow> string" where
  "item_name item_pattern concepto =
     (let nombre = strip (re_sub_empty item_pattern concepto)
      in if has_space nombre then after_first_space nombre else nombre)"

text \<open>\<^verbatim>\<open>{year: row.get(year, 0) for year in self.years}\<close> and the same under \<^verbatim>\<open>abs\<close>.\<close>

definition raw_values :: "string list \<Rightarrow> row \<Rightarrow> year_cells" where
  "raw_values ys r = year_dict (\<lambda>year. row_get r year (IntC 0)) ys"

definition abs_values :: "string list \<Rightarrow> row \<Rightarrow> error + year_cells" where
  "abs_values ys r = collect (\<lambda>year. py_abs (row_get r year (IntC 0))) ys Map.empty"

text \<open>
  \<^verbatim>\<open>_extract_servicios\<close>: one step of the loop on the pair of the flag \<^verbatim>\<open>in_servicios\<close> and
  the dict \<^verbatim>\<open>servicios\<close>, and the loop.
\<close>

definition servicios_step ::
    "pylib \<Rightarrow> string list \<Rightarrow> row \<Rightarrow> bool \<times> kpi_dict \<Rightarrow> bool \<times> kpi_dict" where
  "servicios_step E ys r = (\<lambda>(in_servicios, servicios).
     (let concepto = concepto_of E r
      in if concepto = [] then (in_servicios, servicios)
         else if re_search True servicios_parent_pattern concepto then (True, servicios)
         else if in_servicios
           then (if re_search True servicios_stop_pattern concepto then (False, servicios)
                 else if re_match False servicios_item_pattern concepto
                   then (in_servicios,
                         servicios(item_name servicios_item_pattern concepto \<mapsto> raw_values ys r))
                   else (in_servicios, servicios))
           else (in_servicios, servicios)))"

definition servicios_loop ::
    "pylib \<Rightarrow> string list \<Rightarrow> row list \<Rightarrow> bool \<times> kpi_dict \<Rightarrow> bool \<times> kpi_dict" where
  "servicios_loop E ys rs st = fold (servicios_step E ys) rs st"

definition extract_servicios :: "pylib \<Rightarrow> extractor \<Rightarrow> kpi_dict" where
  "extract_servicios E st =
     snd (servicios_loop E (x_years st) (iterrows (x_df st)) (False, Map.empty))"

text \<open>\<^verbatim>\<open>_extract_aprovisionamientos\<close>\<close>

fun aprovisionamientos_loop ::
    "pylib \<Rightarrow> string list \<Rightarrow> row list \<Rightarrow> kpi_dict \<Rightarrow> error + kpi_dict" where
  "aprovisionamientos_loop E ys [] acc = Inr acc"
| "aprovisionamientos_loop E ys (r # rs) acc =
     (let concepto = concepto_of E r
      in if concepto = [] then aprovisionamientos_loop E ys rs acc
         else if re_match False aprovisionamientos_item_pattern concepto
           then (case abs_values ys r of
                   Inl e \<Rightarrow> Inl e
                 | Inr vs \<Rightarrow>
                     aprovisionamientos_loop E ys rs
                       (acc(item_name aprovisionamientos_item_pattern concepto \<mapsto> vs)))
           else aprovisionamientos_loop E ys rs acc)"

definition extract_aprovisionamientos :: "pylib \<Rightarrow> extractor \<Rightarrow> error + kpi_dict" where
  "extract_aprovisionamientos E st =
     aprovisionamientos_loop E (x_years st) (iterrows (x_df st)) Map.empty"

text \<open>
  \<^verbatim>\<open>_extract_personal\<close> and \<^verbatim>\<open>_extract_otros_gastos\<close> have the same body over their own list
  of categories: the first category whose pattern is found in the label names the entry.
\<close>

fun first_category :: "(regex \<times> string) list \<Rightarrow> string \<Rightarrow> string option" where
  "first_category [] concepto = None"
| "first_category ((pattern, nombre) # cs) concepto =
     (if re_search True pattern concepto then Some nombre else first_category cs concepto)"

fun categories_loop ::
    "pylib \<Rightarrow> (regex \<times> string) list \<Rightarrow> string list \<Rightarrow> row list \<Rightarrow> kpi_dict \<Rightarrow> error + kpi_dict"
  where
  "categories_loop E cats ys [] acc = Inr acc"
| "categories_loop E cats ys (r # rs) acc =
     (let concepto = concepto_of E r
      in if concepto = [] then categories_loop E cats ys rs acc
         else (case first_category cats concepto of
                 None \<Rightarrow> categories_loop E cats ys rs acc
               | Some nombre \<Rightarrow>
                   (case abs_values ys r of
                      Inl e \<Rightarrow> Inl e
                    | Inr vs \<Rightarrow> categories_loop E cats ys rs (acc(nombre \<mapsto> vs)))))"

definition extract_personal :: "pylib \<Rightarrow> extractor \<Rightarrow> error + kpi_dict" where
  "extract_personal E st =
     categories_loop E personal_categories (x_years st) (iterrows (x_df st)) Map.empty"

definition extract_otros_gastos :: "pylib \<Rightarrow> extractor \<Rightarrow> error + kpi_dict" where
  "extract_otros_gastos E st =
     categories_loop E otros_gastos_categories (x_years st) (iterrows (x_df st)) Map.empty"

text \<open>
  \<^verbatim>\<open>extract_detailed_data\<close>: the four extractions in the order of the source; an exception
  of one ends the call.
\<close>

definition extract_detailed_data ::
    "pylib \<Rightarrow> extractor \<Rightarrow> error + (kpi_dict \<times> kpi_dict \<times> kpi_dict \<times> kpi_dict)" where
  "extract_detailed_data E st =
     (let servicios = extract_servicios E st
      in case extract_aprovisionamientos E st of
           Inl e \<Rightarrow> Inl e
         | Inr aprovisionamientos \<Rightarrow>
             (case extract_personal E st of
                Inl e \<Rightarrow> Inl e
              | Inr personal \<Rightarrow>
                  (case extract_otros_gastos E st of
                     Inl e \<Rightarrow> Inl e
                   | Inr otros_gastos \<Rightarrow>
                       Inr (servicios, aprovisionamientos, personal, otros_gastos))))"


section \<open>Tabular ingestor: \<open>utils/data_loader.py\<close>\<close>

text \<open>
  What \<^verbatim>\<open>pd.read_excel(file, sheet_name=0)\<close> returns: the header row (\<^verbatim>\<open>df.columns\<close>, whose
  labels may be strings or numbers) and the data rows. A row shorter than the header
  reads as NaN beyond its end.
\<close>

record raw_frame =
  headers :: "cell list"
  body :: "cell list list"

definition cell_at :: "cell list \<Rightarrow> nat \<Rightarrow> cell" where
  "cell_at r i = (if i < length r then r ! i else NaN)"

text \<open>\<^verbatim>\<open>df.iloc[:, idx]\<close>\<close>

definition column_at :: "raw_frame \<Rightarrow> nat \<Rightarrow> cell list" where
  "column_at raw idx = map (\<lambda>r. cell_at r idx) (body raw)"

text \<open>The fields of a \<^verbatim>\<open>DataLoader\<close> and its constructor.\<close>

record loader =
  l_df :: "frame option"
  l_years :: "string list"
  l_raw_df :: "raw_frame option"

definition DataLoader :: loader where
  "DataLoader = \<lparr>l_df = None, l_years = [], l_raw_df = None\<rparr>"

text \<open>\<^verbatim>\<open>year_pattern = re.compile(r'^(20\d{2}|19\d{2})$')\<close>\<close>

definition year_pattern :: regex where
  "year_pattern =
     seqs [Bol, Alt (seqs [str ''20'', dig, dig]) (seqs [str ''19'', dig, dig]), Eol]"

text \<open>\<^verbatim>\<open>year_pattern.match(str(v).strip())\<close>, giving the stripped text when it matches.\<close>

definition year_token :: "pylib \<Rightarrow> cell \<Rightarrow> string option" where
  "year_token E v =
     (let v_str = strip (py_str E v)
      in if re_match False year_pattern v_str then Some v_str else None)"

text \<open>
  The pairs \<open>(index, year)\<close> found in a list of cells, in order: the first loop over
  \<^verbatim>\<open>enumerate(df.columns)\<close> and the inner loop over \<^verbatim>\<open>enumerate(df.iloc[row_idx])\<close>.
\<close>

definition year_cells_of :: "pylib \<Rightarrow> cell list \<Rightarrow> (nat \<times> string) list" where
  "year_cells_of E cs =
     concat (map (\<lambda>(i, v). case year_token E v of None \<Rightarrow> [] | Some y \<Rightarrow> [(i, y)])
                 (enumerate 0 cs))"

definition header_years :: "pylib \<Rightarrow> raw_frame \<Rightarrow> (nat \<times> string) list" where
  "header_years E raw = year_cells_of E (headers raw)"

text \<open>The rows \<^verbatim>\<open>range(min(5, len(df)))\<close>, each padded to the width of the header.\<close>

definition row_years :: "pylib \<Rightarrow> raw_frame \<Rightarrow> (nat \<times> string) list" where
  "row_years E raw =
     concat (map (\<lambda>r. year_cells_of E (map (cell_at r) [0 ..< length (headers raw)]))
                 (take 5 (body raw)))"

text \<open>\<^verbatim>\<open>sorted(set(xs), reverse=True)\<close> on strings, compared by code point.\<close>

definition sorted_set_reverse :: "string list \<Rightarrow> string list" where
  "sorted_set_reverse xs = rev (sort (remdups xs))"

text \<open>
  The search for the label column: the first column that is not a year column and of
  whose first 20 cells, NaN dropped, more than half are strings longer than 5.
\<close>

definition is_long_text :: "cell \<Rightarrow> bool" where
  "is_long_text v = (case v of Txt s \<Rightarrow> length s > 5 | _ \<Rightarrow> False)"

definition text_column :: "raw_frame \<Rightarrow> nat list \<Rightarrow> nat \<Rightarrow> bool" where
  "text_column raw year_idx i =
     (i \<notin> set year_idx \<and>
      (let sample_values = filter (\<lambda>v. \<not> isna v) (take 20 (column_at raw i));
           text_count = length (filter is_long_text sample_values)
       in length sample_values > 0 \<and> 2 * text_count > length sample_values))"

definition find_concepto_col :: "raw_frame \<Rightarrow> nat list \<Rightarrow> nat" where
  "find_concepto_col raw year_idx =
     (case List.find (text_column raw year_idx) [0 ..< length (headers raw)] of
        Some i \<Rightarrow> i
      | None \<Rightarrow> if length (headers raw) > 1 then 1 else 0)"

text \<open>\<^verbatim>\<open>d[key] = value\<close> on a dict kept in insertion order.\<close>

fun dict_set :: "string \<Rightarrow> nat \<Rightarrow> (string \<times> nat) list \<Rightarrow> (string \<times> nat) list" where
  "dict_set k v [] = [(k, v)]"
| "dict_set k v ((k', v') # d) = (if k' = k then (k, v) # d else (k', v') # dict_set k v d)"

definition columns_to_keep :: "nat \<Rightarrow> (nat \<times> string) list \<Rightarrow> (string \<times> nat) list" where
  "columns_to_keep concepto_col year_columns =
     fold (\<lambda>(idx, year) d. dict_set year idx d) year_columns [(''Concepto'', concepto_col)]"

text \<open>The new DataFrame: one column per entry of the dict, copied from the raw frame.\<close>

definition select_columns :: "raw_frame \<Rightarrow> (string \<times> nat) list \<Rightarrow> frame" where
  "select_columns raw keep =
     \<lparr>columns = map fst keep,
      cells = map (\<lambda>r. map (\<lambda>(name, idx). cell_at r idx) keep) (body raw)\<rparr>"

text \<open>The ten names of the positional fallback, and its years.\<close>

definition default_columns :: "string list" where
  "default_columns = [''Col1'', ''Concepto'', ''Col3'', ''Col4'', ''Col5'', ''Col6'',
                      ''2025'', ''2024'', ''2023'', ''2022'']"

definition default_years :: "string list" where
  "default_years = [''2025'', ''2024'', ''2023'', ''2022'']"

text \<open>
  \<^verbatim>\<open>df.columns = names\<close>: pandas raises a \<^verbatim>\<open>ValueError\<close> (length mismatch) unless there are
  as many names as columns.
\<close>

definition set_columns :: "raw_frame \<Rightarrow> string list \<Rightarrow> error + frame" where
  "set_columns raw names =
     (if length names = length (headers raw)
      then Inr \<lparr>columns = names,
                cells = map (\<lambda>r. map (cell_at r) [0 ..< length (headers raw)]) (body raw)\<rparr>
      else Inl ValueError)"

text \<open>
  \<^verbatim>\<open>_detect_and_rename_columns\<close>, on the raw frame that \<^verbatim>\<open>load\<close> has just stored. Both
  exceptions are raised before any field is assigned, so a failure leaves the loader
  as it was.
\<close>

definition detect_and_rename_columns :: "pylib \<Rightarrow> raw_frame \<Rightarrow> loader \<Rightarrow> error + loader" where
  "detect_and_rename_columns E raw st =
     (let year_columns = (if header_years E raw \<noteq> [] then header_years E raw
                          else row_years E raw)
      in if year_columns = []
         then (if length (headers raw) \<ge> 10
               then (case set_columns raw default_columns of
                       Inl e \<Rightarrow> Inl e
                     | Inr new_df \<Rightarrow> Inr (st\<lparr>l_df := Some new_df, l_years := default_years\<rparr>))
               else Inl ValidationError)
         else (let ys = sorted_set_reverse (map snd year_columns);
                   concepto_col = find_concepto_col raw (map fst year_columns);
                   new_df = select_columns raw (columns_to_keep concepto_col year_columns)
               in Inr (st\<lparr>l_df := Some new_df,
                          l_years := (if ys = [] then default_years else ys)\<rparr>)))"

text \<open>\<^verbatim>\<open>pd.to_numeric(column, errors='coerce').fillna(0)\<close>, cell by cell.\<close>

definition to_numeric_fillna :: "pylib \<Rightarrow> cell \<Rightarrow> cell" where
  "to_numeric_fillna E v =
     (case v of
        Txt s \<Rightarrow> (case parse_number E s of None \<Rightarrow> FloatC 0 | Some r \<Rightarrow> FloatC r)
      | IntC i \<Rightarrow> FloatC (of_int i)
      | FloatC r \<Rightarrow> FloatC r
      | NaN \<Rightarrow> FloatC 0)"

text \<open>\<^verbatim>\<open>_clean_data\<close>: every column whose label is one of the years is made numeric.\<close>

definition clean_frame :: "pylib \<Rightarrow> string list \<Rightarrow> frame \<Rightarrow> frame" where
  "clean_frame E ys f =
     f\<lparr>cells := map (\<lambda>r. map (\<lambda>(name, v). if name \<in> set ys then to_numeric_fillna E v else v)
                                (zip (columns f) r))
                     (cells f)\<rparr>"

definition clean_data :: "pylib \<Rightarrow> loader \<Rightarrow> loader" where
  "clean_data E st =
     (case l_df st of
        None \<Rightarrow> st
      | Some f \<Rightarrow> st\<lparr>l_df := Some (clean_frame E (l_years st) f)\<rparr>)"

text \<open>\<^verbatim>\<open>(column != 0).sum()\<close> counts the cells that are not the number zero.\<close>

definition nonzero :: "cell \<Rightarrow> bool" where
  "nonzero v = (case v of Txt s \<Rightarrow> True | IntC i \<Rightarrow> i \<noteq> 0 | FloatC r \<Rightarrow> r \<noteq> 0 | NaN \<Rightarrow> True)"

definition count_nonzero :: "frame \<Rightarrow> string \<Rightarrow> nat" where
  "count_nonzero f year =
     length (filter (\<lambda>r. nonzero (row_get r year NaN)) (iterrows f))"

text \<open>\<^verbatim>\<open>_validate_structure\<close>\<close>

definition validate_structure :: "loader \<Rightarrow> error + unit" where
  "validate_structure st =
     (case l_df st of
        None \<Rightarrow> Inl ValidationError
      | Some f \<Rightarrow>
          if length (cells f) = 0 then Inl ValidationError
          else (let year_cols = filter (\<lambda>y. y \<in> set (columns f)) (l_years st)
                in if year_cols = [] then Inl ValidationError
                   else if sum_list (map (count_nonzero f) year_cols) = 0
                     then Inl ValidationError
                     else Inr ()))"

text \<open>
  \<^verbatim>\<open>load\<close>: the argument is what \<^verbatim>\<open>pd.read_excel\<close> gives, \<open>None\<close> when it raises. The result
  is the value returned or the exception raised, together with the loader as the call
  leaves it.
\<close>

definition load :: "pylib \<Rightarrow> loader \<Rightarrow> raw_frame option \<Rightarrow> (error + frame) \<times> loader" where
  "load E st file =
     (case file of
        None \<Rightarrow> (Inl DataLoadError, st)
      | Some raw \<Rightarrow>
          (let st1 = st\<lparr>l_raw_df := Some raw\<rparr>
           in case detect_and_rename_columns E raw st1 of
                Inl e \<Rightarrow> (Inl e, st1)
              | Inr st2 \<Rightarrow>
                  (let st3 = clean_data E st2
                   in case validate_structure st3 of
                        Inl e \<Rightarrow> (Inl e, st3)
                      | Inr u \<Rightarrow>
                          (case l_df st3 of
                             None \<Rightarrow> (Inl ValidationError, st3)
                           | Some f \<Rightarrow> (Inr f, st3)))))"

definition get_years :: "loader \<Rightarrow> string list" where
  "get_years st = l_years st"


section \<open>Balance loader: \<open>utils/balance_loader.py\<close>\<close>

definition balance_columns :: "string list" where
  "balance_columns = [''Col1'', ''Col2'', ''Concepto'', ''Col4'', ''Col5'', ''Col6'',
                      ''2025'', ''2024'', ''2023'', ''2022'']"

text \<open>
  \<^verbatim>\<open>BalanceLoader.load\<close> on the frame \<^verbatim>\<open>pd.read_excel\<close> returned: the ten names are assigned
  without a test, then the four year columns are made numeric. On success the loader's
  \<^verbatim>\<open>years\<close> are \<open>default_years\<close>.
\<close>

definition balance_load :: "pylib \<Rightarrow> raw_frame \<Rightarrow> error + frame" where
  "balance_load E raw =
     (case set_columns raw balance_columns of
        Inl e \<Rightarrow> Inl e
      | Inr f \<Rightarrow> Inr (clean_frame E default_years f))"


section \<open>Balance/ratio combinator: \<open>utils/balance_loader.py\<close>\<close>

text \<open>
  A KPI map is a Python dict from concept name to a dict from year string to a number.
  Numbers are modelled as reals: the ratio code only compares with \<open>0\<close>, adds, subtracts,
  divides and multiplies by \<open>100\<close>. Both loaders replace NaN by \<open>0\<close> in every year column
  before extraction, so the values that reach this function are ordinary numbers.
\<close>

type_synonym year_values = "string \<rightharpoonup> real"
type_synonym kpi_values = "string \<rightharpoonup> year_values"
type_synonym ratio_map = "string \<rightharpoonup> year_values"

text \<open>\<^verbatim>\<open>kpis.get(name, {}).get(year, 0)\<close>\<close>

definition kpi_get :: "kpi_values \<Rightarrow> string \<Rightarrow> string \<Rightarrow> real" where
  "kpi_get kpis name year =
     (case kpis name of
        None \<Rightarrow> 0
      | Some per_year \<Rightarrow> (case per_year year of None \<Rightarrow> 0 | Some v \<Rightarrow> v))"

text \<open>
  The body of the \<^verbatim>\<open>for year in years\<close> loop of \<^verbatim>\<open>calculate_financial_ratios\<close>: the
  dict \<^verbatim>\<open>year_ratios\<close> is built by successive assignments, one block per \<^verbatim>\<open>if\<close>. The four
  values the source reads and never uses (\<^verbatim>\<open>activo_no_corriente\<close>, \<^verbatim>\<open>fondos_propios\<close>,
  \<^verbatim>\<open>deudores\<close>, \<^verbatim>\<open>ebit\<close>) are left out; reading them cannot fail.
\<close>

definition year_ratios :: "kpi_values \<Rightarrow> kpi_values \<Rightarrow> string \<Rightarrow> year_values" where
  "year_ratios balance_kpis pyg_kpis year =
    (let activo_total = kpi_get balance_kpis ''total_activo'' year;
         activo_corriente = kpi_get balance_kpis ''activo_corriente'' year;
         pasivo_corriente = kpi_get balance_kpis ''pasivo_corriente'' year;
         pasivo_no_corriente = kpi_get balance_kpis ''pasivo_no_corriente'' year;
         patrimonio_neto = kpi_get balance_kpis ''patrimonio_neto'' year;
         existencias = kpi_get balance_kpis ''existencias'' year;
         efectivo = kpi_get balance_kpis ''efectivo'' year;
         resultado_neto = kpi_get pyg_kpis ''resultado_neto'' year;
         ingresos = kpi_get pyg_kpis ''ingresos'' year;
         pasivo_total = pasivo_corriente + pasivo_no_corriente;
         r0 = (Map.empty :: year_values);
         r1 = (if pasivo_corriente > 0
               then r0(''ratio_liquidez'' \<mapsto> activo_corriente / pasivo_corriente,
                       ''ratio_acid_test'' \<mapsto> (activo_corriente - existencias) / pasivo_corriente,
                       ''ratio_tesoreria'' \<mapsto> efectivo / pasivo_corriente)
               else r0(''ratio_liquidez'' \<mapsto> 0,
                       ''ratio_acid_test'' \<mapsto> 0,
                       ''ratio_tesoreria'' \<mapsto> 0));
         r2 = (if activo_total > 0
               then r1(''ratio_endeudamiento'' \<mapsto> pasivo_total / activo_total,
                       ''ratio_autonomia'' \<mapsto> patrimonio_neto / activo_total)
               else r1(''ratio_endeudamiento'' \<mapsto> 0,
                       ''ratio_autonomia'' \<mapsto> 0));
         r3 = (if patrimonio_neto > 0
               then r2(''ratio_apalancamiento'' \<mapsto> pasivo_total / patrimonio_neto)
               else r2(''ratio_apalancamiento'' \<mapsto> 0));
         r4 = (if patrimonio_neto > 0
               then r3(''roe'' \<mapsto> (resultado_neto / patrimonio_neto) * 100)
               else r3(''roe'' \<mapsto> 0));
         r5 = (if activo_total > 0
               then r4(''roa'' \<mapsto> (resultado_neto / activo_total) * 100,
                       ''rotacion_activos'' \<mapsto> ingresos / activo_total)
               else r4(''roa'' \<mapsto> 0,
                       ''rotacion_activos'' \<mapsto> 0));
         r6 = (if ingresos > 0
               then r5(''margen_neto'' \<mapsto> (resultado_neto / ingresos) * 100)
               else r5(''margen_neto'' \<mapsto> 0));
         r7 = (if pasivo_total > 0
               then r6(''ratio_solvencia'' \<mapsto> activo_total / pasivo_total)
               else r6(''ratio_solvencia'' \<mapsto> 0));
         fondo_maniobra = activo_corriente - pasivo_corriente;
         r8 = r7(''fondo_maniobra'' \<mapsto> fondo_maniobra);
         r9 = (if activo_total > 0
               then r8(''capital_circulante_ratio'' \<mapsto> fondo_maniobra / activo_total)
               else r8(''capital_circulante_ratio'' \<mapsto> 0))
     in r9)"

text \<open>The loop itself: \<^verbatim>\<open>ratios[year] = year_ratios\<close> for each year of the list, in order.\<close>

definition calculate_financial_ratios ::
    "kpi_values \<Rightarrow> kpi_values \<Rightarrow> string list \<Rightarrow> ratio_map" where
  "calculate_financial_ratios balance_kpis pyg_kpis ys =
     fold (\<lambda>year ratios. ratios(year \<mapsto> year_ratios balance_kpis pyg_kpis year))
       ys Map.empty"

text \<open>\<^verbatim>\<open>ratios[year][name]\<close>, with \<open>None\<close> where either key is missing.\<close>

definition ratio_at :: "ratio_map \<Rightarrow> string \<Rightarrow> string \<Rightarrow> real option" where
  "ratio_at ratios year name =
     (case ratios year of None \<Rightarrow> None | Some by_name \<Rightarrow> by_name name)"

text \<open>Inputs of the examples for the ratios.\<close>

definition balance_negative_liabilities :: kpi_values where
  "balance_negative_liabilities =
     [''activo_corriente'' \<mapsto> [''2024'' \<mapsto> 4],
      ''pasivo_corriente'' \<mapsto> [''2024'' \<mapsto> - 2]]"

definition balance_sample :: kpi_values where
  "balance_sample =
     [''activo_corriente'' \<mapsto> [''2024'' \<mapsto> 6],
      ''existencias'' \<mapsto> [''2024'' \<mapsto> 2],
      ''efectivo'' \<mapsto> [''2024'' \<mapsto> 1],
      ''pasivo_corriente'' \<mapsto> [''2024'' \<mapsto> 4]]"

definition pyg_none :: kpi_values where
  "pyg_none = Map.empty"


section \<open>Observations used in the statements\<close>

text \<open>
  The value stored for a concept and a year in the KPI map a call of \<^verbatim>\<open>extract_all\<close>
  returned: \<open>None\<close> when the call raised or the map has no such entry.
\<close>

definition kpi_at :: "error + extractor \<Rightarrow> string \<Rightarrow> string \<Rightarrow> cell option" where
  "kpi_at res name year =
     (case res of
        Inl e \<Rightarrow> None
      | Inr st \<Rightarrow> (case x_kpis st name of None \<Rightarrow> None | Some vs \<Rightarrow> vs year))"

text \<open>The same for the result of \<^verbatim>\<open>_find_kpi\<close> and for a detail map.\<close>

definition found_at :: "error + year_cells option \<Rightarrow> string \<Rightarrow> cell option" where
  "found_at res year =
     (case res of Inl e \<Rightarrow> None | Inr None \<Rightarrow> None | Inr (Some vs) \<Rightarrow> vs year)"

definition detail_at :: "kpi_dict \<Rightarrow> string \<Rightarrow> string \<Rightarrow> cell option" where
  "detail_at d name year = (case d name of None \<Rightarrow> None | Some vs \<Rightarrow> vs year)"


text \<open>
  The three tests \<^verbatim>\<open>_extract_servicios\<close> makes on a row whose label is not empty, the flag
  \<^verbatim>\<open>in_servicios\<close> after a list of rows (it does not depend on the years), and the rows of
  a grid that are captured: those reached with the flag set that are neither a parent nor
  a stop row and match the item pattern.
\<close>

definition is_parent_row :: "pylib \<Rightarrow> row \<Rightarrow> bool" where
  "is_parent_row E r =
     (concepto_of E r \<noteq> [] \<and> re_search True servicios_parent_pattern (concepto_of E r))"

definition is_stop_row :: "pylib \<Rightarrow> row \<Rightarrow> bool" where
  "is_stop_row E r =
     (concepto_of E r \<noteq> [] \<and> re_search True servicios_stop_pattern (concepto_of E r))"

definition is_item_row :: "pylib \<Rightarrow> row \<Rightarrow> bool" where
  "is_item_row E r =
     (concepto_of E r \<noteq> [] \<and> re_match False servicios_item_pattern (concepto_of E r))"

definition window_after :: "pylib \<Rightarrow> row list \<Rightarrow> bool" where
  "window_after E rs = fst (servicios_loop E [] rs (False, Map.empty))"

definition captured :: "pylib \<Rightarrow> row list \<Rightarrow> nat \<Rightarrow> bool" where
  "captured E rs i =
     (window_after E (take i rs) \<and> \<not> is_parent_row E (rs ! i) \<and> \<not> is_stop_row E (rs ! i)
      \<and> is_item_row E (rs ! i))"

definition servicio_name :: "pylib \<Rightarrow> row \<Rightarrow> string" where
  "servicio_name E r = item_name servicios_item_pattern (concepto_of E r)"

text \<open>
  The name of an item row as the specification words it (section 4.4: strip the matched
  prefix from the label, take the remainder after the first whitespace), to compare with
  \<open>item_name\<close>.
\<close>

definition item_name_after_whitespace :: "regex \<Rightarrow> string \<Rightarrow> string" where
  "item_name_after_whitespace item_pattern concepto =
     tl (dropWhile (\<lambda>c. \<not> is_space c) (re_sub_empty item_pattern concepto))"

text \<open>
  The column labels of the frame a loader holds after a call of \<^verbatim>\<open>load\<close>; empty when it
  holds none.
\<close>

definition loaded_columns :: "(error + frame) \<times> loader \<Rightarrow> string list" where
  "loaded_columns res = (case l_df (snd res) of None \<Rightarrow> [] | Some f \<Rightarrow> columns f)"

text \<open>What \<^verbatim>\<open>get_missing_kpis\<close> returns after the call; empty when the call raised.\<close>

definition missing_of :: "error + extractor \<Rightarrow> string list" where
  "missing_of res = (case res of Inl e \<Rightarrow> [] | Inr st \<Rightarrow> get_missing_kpis st)"

text \<open>
  The invariant of a grid after cleaning (\<^verbatim>\<open>_clean_data\<close>): in every row, the cell under a
  year label is a number.
\<close>

definition year_cells_numeric :: "string list \<Rightarrow> frame \<Rightarrow> bool" where
  "year_cells_numeric ys f =
     list_all (\<lambda>r. list_all (\<lambda>y. case map_of r y of None \<Rightarrow> True | Some v \<Rightarrow> is_number v) ys)
       (iterrows f)"

text \<open>
  The row test as the specification words it (section 4.3: the non-year cell values of
  a row concatenated into one search string), to compare with \<open>row_found\<close>. The
  specification names no separator; \<open>sep\<close> is put between the cells.
\<close>

fun join :: "string \<Rightarrow> string list \<Rightarrow> string" where
  "join sep [] = []"
| "join sep [s] = s"
| "join sep (s # t # ss) = s @ sep @ join sep (t # ss)"

definition row_found_concatenated ::
    "pylib \<Rightarrow> string list \<Rightarrow> string \<Rightarrow> regex list \<Rightarrow> row \<Rightarrow> bool" where
  "row_found_concatenated E ys sep pats r =
     match_pattern
       (join sep (map (\<lambda>col. py_str E (row_get r col (Txt '''')))
                      (filter (\<lambda>col. col \<notin> set ys) (row_index r))))
       pats"


section \<open>Inputs of the worked examples\<close>

text \<open>
  An instance of the two library parameters for the examples. Their inputs hold no float
  in a label column and no text in a year column, so neither function is consulted.
\<close>

definition example_lib :: pylib where
  "example_lib = \<lparr>float_str = (\<lambda>r. ''0.0''), parse_number = (\<lambda>s. None)\<rparr>"

text \<open>Scenario B of the specification: one row, an expense stored as a negative number.\<close>

definition scenario_b :: frame where
  "scenario_b =
     \<lparr>columns = [''Concepto'', ''2024''],
      cells = [[Txt ''4. Aprovisionamientos'', FloatC (- 200000)]]\<rparr>"

definition aprovisionamientos_config :: config where
  "aprovisionamientos_config =
     \<lparr>patterns = aprovisionamientos_patterns, sign = - 1, required = True, default_value = 0\<rparr>"

definition gastos_personal_config :: config where
  "gastos_personal_config =
     \<lparr>patterns = gastos_personal_patterns, sign = - 1, required = True, default_value = 0\<rparr>"

definition ingresos_config :: config where
  "ingresos_config =
     \<lparr>patterns = ingresos_patterns, sign = 1, required = True, default_value = 0\<rparr>"

definition resultado_financiero_config :: config where
  "resultado_financiero_config =
     \<lparr>patterns = resultado_financiero_patterns, sign = 1, required = False, default_value = 0\<rparr>"

text \<open>A frame whose only label matches no pattern of the registry.\<close>

definition no_match_frame :: frame where
  "no_match_frame = \<lparr>columns = [''Concepto'', ''2024''], cells = [[Txt ''Otros'', FloatC 7]]\<rparr>"

text \<open>
  A frame in the layout of the positional fallback, where the label of the first row is
  split over two cells and the second row carries it in one cell.
\<close>

definition split_label_frame :: frame where
  "split_label_frame =
     \<lparr>columns = default_columns,
      cells = [[Txt ''Gastos de '', Txt ''personal'', NaN, NaN, NaN, NaN,
                FloatC (- 100), FloatC (- 90), FloatC (- 80), FloatC (- 70)],
               [NaN, Txt ''Gastos de personal'', NaN, NaN, NaN, NaN,
                FloatC (- 500), FloatC (- 400), FloatC (- 300), FloatC (- 200)]]\<rparr>"



text \<open>
  Scenario E of the specification: the parent row, two item rows, a stop row, and a third
  item row after the window has closed.
\<close>

definition scenario_e :: frame where
  "scenario_e =
     \<lparr>columns = [''Concepto'', ''2024''],
      cells = [[Txt ''705 PRESTACIONES DE SERVICIOS'', FloatC 300],
               [Txt ''705.0.0.1 Consultoria'', FloatC 100],
               [Txt ''705.0.0.2 Formacion'', FloatC 200],
               [Txt ''2. Variacion de existencias'', FloatC 0],
               [Txt ''705.0.0.3 Auditoria'', FloatC 50]]\<rparr>"

text \<open>
  Item rows whose label has a tab, or nothing at all, where the specification expects
  whitespace after the account code.
\<close>

definition tab_label :: string where
  "tab_label = ''705.0.0.1'' @ [CHR 0x09] @ ''Consultoria''"

definition unspaced_label_frame :: frame where
  "unspaced_label_frame =
     \<lparr>columns = [''Concepto'', ''2024''],
      cells = [[Txt ''705 PRESTACIONES DE SERVICIOS'', FloatC 300],
               [Txt tab_label, FloatC 100],
               [Txt ''705.0.0.Formacion'', FloatC 200]]\<rparr>"

text \<open>
  Raw frames for the loader. \<open>headed_frame\<close> names its years in the header (one as a
  number, one as text with a trailing space); \<open>legacy_frame\<close> has ten columns and no year
  anywhere; \<open>wide_frame\<close> is the same with an eleventh column; \<open>narrow_frame\<close> has three
  columns and no year.
\<close>

definition headed_frame :: raw_frame where
  "headed_frame =
     \<lparr>headers = [Txt ''Concepto'', IntC 2023, Txt ''2024 ''],
      body = [[Txt ''1. Importe neto de la cifra de negocios'', IntC 900000, IntC 1000000],
              [Txt ''4. Aprovisionamientos'', IntC (- 180000), IntC (- 200000)]]\<rparr>"

definition legacy_frame :: raw_frame where
  "legacy_frame =
     \<lparr>headers = [Txt ''Nivel'', Txt ''Cuenta'', Txt ''Nota'', Txt ''C4'', Txt ''C5'', Txt ''C6'',
                 Txt ''Actual'', Txt ''Previo'', Txt ''Anterior'', Txt ''Inicial''],
      body = [[IntC 1, Txt ''4. Aprovisionamientos'', NaN, NaN, NaN, NaN,
               IntC (- 200000), IntC (- 180000), IntC (- 150000), IntC (- 120000)]]\<rparr>"

definition wide_frame :: raw_frame where
  "wide_frame =
     \<lparr>headers = [Txt ''Nivel'', Txt ''Cuenta'', Txt ''Nota'', Txt ''C4'', Txt ''C5'', Txt ''C6'',
                 Txt ''Actual'', Txt ''Previo'', Txt ''Anterior'', Txt ''Inicial'', Txt ''Extra''],
      body = [[IntC 1, Txt ''4. Aprovisionamientos'', NaN, NaN, NaN, NaN,
               IntC (- 200000), IntC (- 180000), IntC (- 150000), IntC (- 120000), NaN]]\<rparr>"

definition narrow_frame :: raw_frame where
  "narrow_frame =
     \<lparr>headers = [Txt ''Cuenta'', Txt ''Concepto'', Txt ''Importe''],
      body = [[IntC 70, Txt ''Ventas netas'', IntC 1000000]]\<rparr>"


section \<open>Evaluation\<close>

text \<open>
  \<open>lower_char\<close> on the bits of a character, for evaluation: the letters that change are
  those with bit 5 clear and bit 6 set whose low five bits are 1 to 26 (below 128) or
  anything but 23 and 31 (from 192 on), and lowering sets bit 5.
\<close>

lemma lower_char_bits [code]:
  "lower_char (Char b0 b1 b2 b3 b4 b5 b6 b7) =
     (if \<not> b5 \<and> b6 \<and>
         (if b7 then \<not> (b0 \<and> b1 \<and> b2 \<and> b4)
          else (b0 \<or> b1 \<or> b2 \<or> b3 \<or> b4) \<and> \<not> (b4 \<and> b3 \<and> (b2 \<or> (b1 \<and> b0))))
      then Char b0 b1 b2 b3 b4 True b6 b7
      else Char b0 b1 b2 b3 b4 b5 b6 b7)"
  by (cases b0; cases b1; cases b2; cases b3; cases b4; cases b5; cases b6; cases b7;
      simp add: lower_char_def char_of_def bit_iff_odd)


text \<open>The matcher on a literal and on a class, by cases on the text.\<close>

lemma rx_Lit_case:
  "rx ic (Lit a) p s =
     (case s of [] \<Rightarrow> [] | d # ds \<Rightarrow> if same_char ic a d then [(Some d, ds)] else [])"
  by (cases s) simp_all

lemma rx_Cls_case:
  "rx ic (Cls cs) p s =
     (case s of [] \<Rightarrow> [] | d # ds \<Rightarrow> if in_class ic cs d then [(Some d, ds)] else [])"
  by (cases s) simp_all


section \<open>Properties of the ratio computation\<close>

lemma calculate_financial_ratios_lookup:
  "calculate_financial_ratios b p ys year =
     (if year \<in> set ys then Some (year_ratios b p year) else None)"
proof -
  have "fold (\<lambda>y r. r(y \<mapsto> year_ratios b p y)) ys acc year =
          (if year \<in> set ys then Some (year_ratios b p year) else acc year)" for acc
    by (induction ys arbitrary: acc) auto
  then show ?thesis
    by (simp add: calculate_financial_ratios_def)
qed

lemma year_ratios_liquidez:
  "year_ratios b p y ''ratio_liquidez'' =
     Some (if kpi_get b ''pasivo_corriente'' y > 0
           then kpi_get b ''activo_corriente'' y / kpi_get b ''pasivo_corriente'' y else 0)"
  by (simp add: year_ratios_def Let_def)

lemma year_ratios_acid_test:
  "year_ratios b p y ''ratio_acid_test'' =
     Some (if kpi_get b ''pasivo_corriente'' y > 0
           then (kpi_get b ''activo_corriente'' y - kpi_get b ''existencias'' y)
                  / kpi_get b ''pasivo_corriente'' y
           else 0)"
  by (simp add: year_ratios_def Let_def)

lemma year_ratios_tesoreria:
  "year_ratios b p y ''ratio_tesoreria'' =
     Some (if kpi_get b ''pasivo_corriente'' y > 0
           then kpi_get b ''efectivo'' y / kpi_get b ''pasivo_corriente'' y else 0)"
  by (simp add: year_ratios_def Let_def)

text \<open>
  C1 (as the code has it). For every Balance KPI map, P&L KPI map and year of the year list,
  the three liquidity ratios are the quotients by \<open>pasivo_corriente\<close> when
  \<open>pasivo_corriente > 0\<close>, and all three are exactly \<open>0\<close> when \<open>pasivo_corriente \<le> 0\<close>: the
  guard of the code is \<^verbatim>\<open>pasivo_corriente > 0\<close>, so a zero and also a negative
  denominator give \<open>0\<close>. The function returns a value for every input (it is total).
\<close>

theorem liquidity_ratios_guarded:
  assumes "year \<in> set ys"
  shows "ratio_at (calculate_financial_ratios b p ys) year ''ratio_liquidez'' =
           Some (if kpi_get b ''pasivo_corriente'' year > 0
                 then kpi_get b ''activo_corriente'' year / kpi_get b ''pasivo_corriente'' year
                 else 0)
       \<and> ratio_at (calculate_financial_ratios b p ys) year ''ratio_acid_test'' =
           Some (if kpi_get b ''pasivo_corriente'' year > 0
                 then (kpi_get b ''activo_corriente'' year - kpi_get b ''existencias'' year)
                        / kpi_get b ''pasivo_corriente'' year
                 else 0)
       \<and> ratio_at (calculate_financial_ratios b p ys) year ''ratio_tesoreria'' =
           Some (if kpi_get b ''pasivo_corriente'' year > 0
                 then kpi_get b ''efectivo'' year / kpi_get b ''pasivo_corriente'' year
                 else 0)"
  using assms
  by (simp add: ratio_at_def calculate_financial_ratios_lookup year_ratios_liquidez
      year_ratios_acid_test year_ratios_tesoreria)

theorem liquidity_ratios_guarded_witness:
  "ratio_at (calculate_financial_ratios balance_sample pyg_none [''2025'', ''2024'']) ''2024''
      ''ratio_liquidez'' = Some (3 / 2)
   \<and> ratio_at (calculate_financial_ratios balance_sample pyg_none [''2025'', ''2024'']) ''2025''
      ''ratio_tesoreria'' = Some 0"
  using liquidity_ratios_guarded [of "''2024''" "[''2025'', ''2024'']" balance_sample pyg_none]
    liquidity_ratios_guarded [of "''2025''" "[''2025'', ''2024'']" balance_sample pyg_none]
  by (simp add: kpi_get_def balance_sample_def)

text \<open>
  The statement of the specification promises the quotient whenever
  \<open>pasivo_corriente \<noteq> 0\<close>. With
  \<open>activo_corriente = 4\<close> and \<open>pasivo_corriente = -2\<close> the quotient is \<open>-2\<close>, and the code
  stores \<open>0\<close>.
\<close>

theorem liquidity_ratio_negative_denominator:
  "kpi_get balance_negative_liabilities ''pasivo_corriente'' ''2024'' \<noteq> 0
   \<and> kpi_get balance_negative_liabilities ''activo_corriente'' ''2024''
        / kpi_get balance_negative_liabilities ''pasivo_corriente'' ''2024'' = - 2
   \<and> ratio_at (calculate_financial_ratios balance_negative_liabilities pyg_none [''2024''])
        ''2024'' ''ratio_liquidez'' = Some 0
   \<and> ratio_at (calculate_financial_ratios balance_negative_liabilities pyg_none [''2024''])
        ''2024'' ''ratio_liquidez''
      \<noteq> Some (kpi_get balance_negative_liabilities ''activo_corriente'' ''2024''
               / kpi_get balance_negative_liabilities ''pasivo_corriente'' ''2024'')"
  by (simp add: ratio_at_def calculate_financial_ratios_lookup year_ratios_liquidez kpi_get_def
      balance_negative_liabilities_def)


section \<open>Properties of the line-item extractor\<close>

lemma collect_lookup:
  "collect f ys acc = Inr m \<Longrightarrow>
     m y = (if y \<in> set ys then (case f y of Inl e \<Rightarrow> None | Inr v \<Rightarrow> Some v) else acc y)"
proof (induction ys arbitrary: acc)
  case Nil
  then show ?case by simp
next
  case (Cons a ys)
  then show ?case
    by (cases "f a") (auto split: sum.splits)
qed

lemma collect_defined:
  "collect f ys acc = Inr m \<Longrightarrow> y \<in> set ys \<Longrightarrow> \<exists>v. f y = Inr v \<and> m y = Some v"
proof (induction ys arbitrary: acc)
  case Nil
  then show ?case by simp
next
  case (Cons a ys)
  show ?case
  proof (cases "f a")
    case (Inl e)
    with Cons.prems show ?thesis by simp
  next
    case (Inr v)
    with Cons.prems have rest: "collect f ys (acc(a \<mapsto> v)) = Inr m" by simp
    show ?thesis
    proof (cases "y \<in> set ys")
      case True
      with Cons.IH [OF rest] show ?thesis by simp
    next
      case False
      with Cons.prems have "y = a" by simp
      moreover from collect_lookup [OF rest, of y] False \<open>y = a\<close> have "m y = Some v" by simp
      ultimately show ?thesis using Inr by simp
    qed
  qed
qed

lemma collect_total:
  "\<forall>y \<in> set ys. \<exists>v. f y = Inr v \<Longrightarrow> \<exists>m. collect f ys acc = Inr m"
  by (induction ys arbitrary: acc) auto

lemma year_dict_lookup:
  "year_dict f ys y = (if y \<in> set ys then Some (f y) else None)"
proof -
  have "fold (\<lambda>year acc. acc(year \<mapsto> f year)) ys acc y =
          (if y \<in> set ys then Some (f y) else acc y)" for acc
    by (induction ys arbitrary: acc) auto
  then show ?thesis by (simp add: year_dict_def)
qed

lemma py_abs_non_negative:
  "py_abs c = Inr v \<Longrightarrow> c \<noteq> NaN \<Longrightarrow> non_negative v"
  by (cases c) (auto simp: py_abs_def non_negative_def)

lemma kpi_value_non_negative:
  "kpi_value (- 1) r y = Inr v \<Longrightarrow> non_negative v"
  by (auto simp: kpi_value_def isna_def Let_def non_negative_def
      split: option.splits if_splits dest: py_abs_non_negative)

lemma find_kpi_first:
  "find_kpi E ys cfg rs =
     (case List.find (row_found E ys (patterns cfg)) rs of
        None \<Rightarrow> Inr None
      | Some r \<Rightarrow> (case collect (kpi_value (sign cfg) r) ys Map.empty of
                     Inl e \<Rightarrow> Inl e
                   | Inr result \<Rightarrow> Inr (Some result)))"
  by (induction rs) auto

lemma find_kpi_no_match:
  "\<forall>r \<in> set rs. \<not> row_found E ys (patterns cfg) r \<Longrightarrow> find_kpi E ys cfg rs = Inr None"
  by (induction rs) auto

lemma find_kpi_non_negative:
  assumes "find_kpi E ys cfg rs = Inr (Some vs)" and "sign cfg = - 1" and "vs y = Some v"
  shows "non_negative v"
proof -
  from assms(1) obtain r where c: "collect (kpi_value (sign cfg) r) ys Map.empty = Inr vs"
    by (auto simp: find_kpi_first split: option.splits sum.splits)
  from collect_lookup [OF c, of y] assms(3) have "y \<in> set ys"
    by (auto split: if_splits)
  from collect_defined [OF c this] assms(2,3) show ?thesis
    by (auto dest: kpi_value_non_negative)
qed

lemma extract_one_fields:
  "extract_one E n c st = Inr st' \<Longrightarrow> x_df st' = x_df st \<and> x_years st' = x_years st"
  by (auto simp: extract_one_def split: sum.splits option.splits if_splits)

lemma extract_one_other:
  "extract_one E n c st = Inr st' \<Longrightarrow> m \<noteq> n \<Longrightarrow>
     x_kpis st' m = x_kpis st m \<and> (m \<in> set (x_not_found st') \<longleftrightarrow> m \<in> set (x_not_found st))"
  by (auto simp: extract_one_def split: sum.splits option.splits if_splits)

lemma extract_loop_fields:
  "extract_loop E reg st = Inr st' \<Longrightarrow> x_df st' = x_df st \<and> x_years st' = x_years st"
proof (induction reg arbitrary: st)
  case Nil
  then show ?case by simp
next
  case (Cons a reg)
  obtain n c where a: "a = (n, c)" by (cases a)
  from Cons.prems a obtain st1 where s: "extract_one E n c st = Inr st1"
      and r: "extract_loop E reg st1 = Inr st'"
    by (auto split: sum.splits)
  from Cons.IH [OF r] extract_one_fields [OF s] show ?case by simp
qed

lemma extract_loop_other:
  "extract_loop E reg st = Inr st' \<Longrightarrow> m \<notin> fst ` set reg \<Longrightarrow>
     x_kpis st' m = x_kpis st m \<and> (m \<in> set (x_not_found st') \<longleftrightarrow> m \<in> set (x_not_found st))"
proof (induction reg arbitrary: st)
  case Nil
  then show ?case by simp
next
  case (Cons a reg)
  obtain n c where a: "a = (n, c)" by (cases a)
  from Cons.prems a obtain st1 where s: "extract_one E n c st = Inr st1"
      and r: "extract_loop E reg st1 = Inr st'"
    by (auto split: sum.splits)
  from Cons.prems a have "m \<noteq> n" "m \<notin> fst ` set reg" by auto
  with Cons.IH [OF r] extract_one_other [OF s] show ?case by simp
qed

lemma extract_one_entry:
  assumes "extract_one E n c st = Inr st'"
  shows "x_kpis st' n =
           (case find_kpi E (x_years st) c (iterrows (x_df st)) of
              Inl e \<Rightarrow> None
            | Inr (Some v) \<Rightarrow> Some v
            | Inr None \<Rightarrow> if required c then x_kpis st n
                          else Some (year_dict (\<lambda>year. IntC (default_value c)) (x_years st)))"
    and "n \<in> set (x_not_found st') \<longleftrightarrow>
           n \<in> set (x_not_found st)
           \<or> (find_kpi E (x_years st) c (iterrows (x_df st)) = Inr None \<and> required c)"
  using assms
  by (auto simp: extract_one_def split: sum.splits option.splits if_splits)

lemma extract_loop_entry:
  assumes "extract_loop E reg st = Inr st'" and "distinct (map fst reg)" and "(n, c) \<in> set reg"
  shows "x_kpis st' n =
           (case find_kpi E (x_years st) c (iterrows (x_df st)) of
              Inl e \<Rightarrow> None
            | Inr (Some v) \<Rightarrow> Some v
            | Inr None \<Rightarrow> if required c then x_kpis st n
                          else Some (year_dict (\<lambda>year. IntC (default_value c)) (x_years st)))
         \<and> (n \<in> set (x_not_found st') \<longleftrightarrow>
              n \<in> set (x_not_found st)
              \<or> (find_kpi E (x_years st) c (iterrows (x_df st)) = Inr None \<and> required c))"
  using assms
proof (induction reg arbitrary: st)
  case Nil
  then show ?case by simp
next
  case (Cons a reg)
  obtain n' c' where a: "a = (n', c')" by (cases a)
  from Cons.prems(1) a obtain st1 where s: "extract_one E n' c' st = Inr st1"
      and r: "extract_loop E reg st1 = Inr st'"
    by (auto split: sum.splits)
  show ?case
  proof (cases "(n, c) = (n', c')")
    case True
    with Cons.prems(2) a have "n \<notin> fst ` set reg" by auto
    from extract_loop_other [OF r this] have
      "x_kpis st' n = x_kpis st1 n" "n \<in> set (x_not_found st') \<longleftrightarrow> n \<in> set (x_not_found st1)"
      by simp_all
    moreover from True s have "extract_one E n c st = Inr st1" by simp
    ultimately show ?thesis
      using extract_one_entry [of E n c st st1] by simp
  next
    case False
    with Cons.prems a have in_rest: "(n, c) \<in> set reg" and d: "distinct (map fst reg)" by auto
    with Cons.prems(2) a have ne: "n \<noteq> n'" by force
    have same: "x_df st1 = x_df st" "x_years st1 = x_years st"
      using extract_one_fields [OF s] by simp_all
    have keep: "x_kpis st1 n = x_kpis st n"
        "n \<in> set (x_not_found st1) \<longleftrightarrow> n \<in> set (x_not_found st)"
      using extract_one_other [OF s ne] by simp_all
    from Cons.IH [OF r d in_rest] show ?thesis
      by (simp only: same keep)
  qed
qed

lemma KPIExtractor_fields:
  "x_df (KPIExtractor f ys) = f" "x_years (KPIExtractor f ys) = ys"
  "x_kpis (KPIExtractor f ys) n = None" "x_not_found (KPIExtractor f ys) = []"
  by (simp_all add: KPIExtractor_def)

lemma KPI_MAPPINGS_distinct: "distinct (map fst KPI_MAPPINGS)"
  by (simp add: KPI_MAPPINGS_def)

lemma KPI_MAPPINGS_default: "(n, c) \<in> set KPI_MAPPINGS \<Longrightarrow> default_value c = 0"
  by (auto simp: KPI_MAPPINGS_def)

text \<open>
  C4. For every grid and every concept of \<^verbatim>\<open>KPI_MAPPINGS\<close> whose sign is \<open>-1\<close>, every year
  value stored for it in the KPI map that \<^verbatim>\<open>extract_all\<close> returns is a non-negative number,
  whatever the sign of the source cell. The witness is Scenario B: the row
  \<^verbatim>\<open>4. Aprovisionamientos\<close> with \<open>-200000\<close> for 2024 gives \<open>aprovisionamientos[2024] = 200000\<close>.
\<close>

theorem sign_minus_one_non_negative:
  assumes "(name, cfg) \<in> set KPI_MAPPINGS" and "sign cfg = - 1"
      and "kpi_at (extract_all E (KPIExtractor f ys)) name year = Some v"
  shows "non_negative v"
proof -
  from assms(3) obtain st vs where
    ex: "extract_all E (KPIExtractor f ys) = Inr st" and k: "x_kpis st name = Some vs"
    and v: "vs year = Some v"
    by (auto simp: kpi_at_def split: sum.splits option.splits)
  have entry: "x_kpis st name =
           (case find_kpi E ys cfg (iterrows f) of
              Inl e \<Rightarrow> None
            | Inr (Some v) \<Rightarrow> Some v
            | Inr None \<Rightarrow> if required cfg then None
                          else Some (year_dict (\<lambda>year. IntC (default_value cfg)) ys))"
    using extract_loop_entry [OF ex [unfolded extract_all_def] KPI_MAPPINGS_distinct assms(1)]
    unfolding KPIExtractor_fields by simp
  show ?thesis
  proof (cases "find_kpi E ys cfg (iterrows f)")
    case (Inl e)
    with entry k show ?thesis by simp
  next
    case (Inr found)
    show ?thesis
    proof (cases found)
      case None
      with Inr entry k v KPI_MAPPINGS_default [OF assms(1)] show ?thesis
        by (auto simp: year_dict_lookup non_negative_def split: if_splits)
    next
      case (Some res)
      with Inr entry k have "find_kpi E ys cfg (iterrows f) = Inr (Some vs)" by simp
      then show ?thesis
        using assms(2) v by (rule find_kpi_non_negative)
    qed
  qed
qed

lemma kpi_value_numeric:
  assumes "case map_of r y of None \<Rightarrow> True | Some v \<Rightarrow> is_number v"
  shows "\<exists>v. kpi_value sg r y = Inr v"
  using assms
  by (cases "map_of r y"; cases "the (map_of r y)")
     (auto simp: kpi_value_def isna_def is_number_def py_abs_def Let_def)

lemma find_kpi_numeric:
  assumes "list_all (\<lambda>r. list_all (\<lambda>y. case map_of r y of None \<Rightarrow> True | Some v \<Rightarrow> is_number v) ys) rs"
  shows "\<exists>res. find_kpi E ys cfg rs = Inr res"
  using assms
proof (induction rs)
  case Nil
  then show ?case by simp
next
  case (Cons r rs)
  then have "\<forall>y \<in> set ys. \<exists>v. kpi_value (sign cfg) r y = Inr v"
    by (auto simp: list_all_iff intro: kpi_value_numeric)
  from collect_total [OF this] obtain m where
    "collect (kpi_value (sign cfg) r) ys Map.empty = Inr m" by blast
  with Cons show ?case by auto
qed

lemma extract_loop_numeric:
  assumes "year_cells_numeric (x_years st) (x_df st)"
  shows "\<exists>st'. extract_loop E reg st = Inr st'"
  using assms
proof (induction reg arbitrary: st)
  case Nil
  then show ?case by simp
next
  case (Cons a reg)
  obtain n c where a: "a = (n, c)" by (cases a)
  from Cons.prems obtain res where
    f: "find_kpi E (x_years st) c (iterrows (x_df st)) = Inr res"
    using find_kpi_numeric [of "x_years st" "iterrows (x_df st)" E c]
    by (auto simp: year_cells_numeric_def)
  then have "\<exists>st1. extract_one E n c st = Inr st1"
    by (cases res; cases "required c") (simp_all add: extract_one_def)
  then obtain st1 where s: "extract_one E n c st = Inr st1" by blast
  from extract_one_fields [OF s] Cons.prems
  have "year_cells_numeric (x_years st1) (x_df st1)" by simp
  from Cons.IH [OF this] a s show ?case by auto
qed

lemma extract_all_numeric:
  "year_cells_numeric ys f \<Longrightarrow> \<exists>st. extract_all E (KPIExtractor f ys) = Inr st"
  unfolding extract_all_def
  by (rule extract_loop_numeric) (simp add: KPIExtractor_fields)

lemma extract_all_kpi_at:
  assumes "(n, c) \<in> set KPI_MAPPINGS" and "year_cells_numeric ys f"
  shows "kpi_at (extract_all E (KPIExtractor f ys)) n y =
           (case find_kpi E ys c (iterrows f) of
              Inl e \<Rightarrow> None
            | Inr (Some vs) \<Rightarrow> vs y
            | Inr None \<Rightarrow> if required c then None
                          else year_dict (\<lambda>year. IntC (default_value c)) ys y)"
proof -
  from extract_all_numeric [OF assms(2)] obtain st where
    ex: "extract_all E (KPIExtractor f ys) = Inr st" by blast
  have "x_kpis st n =
           (case find_kpi E ys c (iterrows f) of
              Inl e \<Rightarrow> None
            | Inr (Some v) \<Rightarrow> Some v
            | Inr None \<Rightarrow> if required c then None
                          else Some (year_dict (\<lambda>year. IntC (default_value c)) ys))"
    using extract_loop_entry [OF ex [unfolded extract_all_def] KPI_MAPPINGS_distinct assms(1)]
    unfolding KPIExtractor_fields by simp
  with ex show ?thesis
    by (auto simp: kpi_at_def split: sum.splits option.splits)
qed

theorem sign_minus_one_non_negative_witness:
  "kpi_at (extract_all example_lib (KPIExtractor scenario_b [''2024'']))
     ''aprovisionamientos'' ''2024'' = Some (FloatC 200000)
   \<and> non_negative (FloatC 200000)"
proof -
  have a: "(''aprovisionamientos'', aprovisionamientos_config) \<in> set KPI_MAPPINGS"
    by (simp add: KPI_MAPPINGS_def aprovisionamientos_config_def)
  have b: "year_cells_numeric [''2024''] scenario_b"
    by code_simp
  have c: "found_at (find_kpi example_lib [''2024''] aprovisionamientos_config
             (iterrows scenario_b)) ''2024'' = Some (FloatC 200000)"
    by code_simp
  have s: "sign aprovisionamientos_config = - 1"
    by (simp add: aprovisionamientos_config_def)
  have k: "kpi_at (extract_all example_lib (KPIExtractor scenario_b [''2024'']))
             ''aprovisionamientos'' ''2024'' = Some (FloatC 200000)"
    using c unfolding extract_all_kpi_at [OF a b]
    by (auto simp: found_at_def split: sum.splits option.splits)
  from sign_minus_one_non_negative [OF a s k] k show ?thesis by simp
qed

lemma extract_one_no_match:
  assumes "\<forall>r \<in> set (iterrows (x_df st0)). \<not> row_found E (x_years st0) (patterns cfg) r"
  shows "extract_one E name cfg st0 =
           Inr (if required cfg then st0\<lparr>x_not_found := x_not_found st0 @ [name]\<rparr>
                else st0\<lparr>x_kpis := (x_kpis st0)
                        (name \<mapsto> year_dict (\<lambda>year. IntC (default_value cfg)) (x_years st0))\<rparr>)"
  using find_kpi_no_match [OF assms] by (simp add: extract_one_def)

text \<open>
  C5. For every grid and every concept of the registry that no row matches: the round of
  the loop for that concept does not raise; if the concept is required, its key is absent
  from the returned KPI map and its name is in the missing list; if it is not required,
  the map holds the key with a dict that gives the default to exactly the years of the
  year list. Extraction as a whole returns whenever the year columns hold numbers, as
  they do after the loader.
\<close>

theorem missing_concept_handling:
  assumes "(name, cfg) \<in> set KPI_MAPPINGS"
      and "\<forall>r \<in> set (iterrows f). \<not> row_found E ys (patterns cfg) r"
  shows "(\<forall>st0. x_df st0 = f \<and> x_years st0 = ys \<longrightarrow> (\<exists>st1. extract_one E name cfg st0 = Inr st1))
       \<and> (year_cells_numeric ys f \<longrightarrow> (\<exists>st. extract_all E (KPIExtractor f ys) = Inr st))
       \<and> (\<forall>st. extract_all E (KPIExtractor f ys) = Inr st \<longrightarrow>
             (if required cfg
              then x_kpis st name = None \<and> name \<in> set (get_missing_kpis st)
              else \<exists>d. x_kpis st name = Some d \<and> dom d = set ys
                     \<and> (\<forall>year \<in> set ys. d year = Some (IntC (default_value cfg)))))"
proof (intro conjI allI impI)
  fix st0 :: extractor assume "x_df st0 = f \<and> x_years st0 = ys"
  with assms(2) show "\<exists>st1. extract_one E name cfg st0 = Inr st1"
    using extract_one_no_match [of st0 E cfg name] by auto
next
  assume "year_cells_numeric ys f"
  then show "\<exists>st. extract_all E (KPIExtractor f ys) = Inr st"
    by (rule extract_all_numeric)
next
  fix st :: extractor assume ex: "extract_all E (KPIExtractor f ys) = Inr st"
  have none: "find_kpi E ys cfg (iterrows f) = Inr None"
    using assms(2) by (rule find_kpi_no_match)
  have entry: "x_kpis st name =
                 (if required cfg then None
                  else Some (year_dict (\<lambda>year. IntC (default_value cfg)) ys))"
       and missing: "name \<in> set (x_not_found st) \<longleftrightarrow> required cfg"
    using extract_loop_entry [OF ex [unfolded extract_all_def] KPI_MAPPINGS_distinct assms(1)]
    unfolding KPIExtractor_fields none by simp_all
  show "if required cfg
        then x_kpis st name = None \<and> name \<in> set (get_missing_kpis st)
        else \<exists>d. x_kpis st name = Some d \<and> dom d = set ys
               \<and> (\<forall>year \<in> set ys. d year = Some (IntC (default_value cfg)))"
  proof (cases "required cfg")
    case True
    with entry missing show ?thesis by (simp add: get_missing_kpis_def)
  next
    case False
    have "dom (year_dict (\<lambda>year. IntC (default_value cfg)) ys) = set ys"
      by (auto simp: dom_def year_dict_lookup)
    with False entry show ?thesis by (simp add: year_dict_lookup)
  qed
qed

theorem missing_concept_handling_witness:
  "kpi_at (extract_all example_lib (KPIExtractor no_match_frame [''2024''])) ''ingresos'' ''2024''
     = None
   \<and> ''ingresos'' \<in> set (missing_of (extract_all example_lib (KPIExtractor no_match_frame [''2024''])))
   \<and> kpi_at (extract_all example_lib (KPIExtractor no_match_frame [''2024'']))
         ''resultado_financiero'' ''2024'' = Some (IntC 0)"
proof -
  have a: "(''ingresos'', ingresos_config) \<in> set KPI_MAPPINGS"
    and b: "(''resultado_financiero'', resultado_financiero_config) \<in> set KPI_MAPPINGS"
    by (simp_all add: KPI_MAPPINGS_def ingresos_config_def resultado_financiero_config_def)
  have na: "\<forall>r \<in> set (iterrows no_match_frame).
              \<not> row_found example_lib [''2024''] (patterns ingresos_config) r"
    and nb: "\<forall>r \<in> set (iterrows no_match_frame).
              \<not> row_found example_lib [''2024''] (patterns resultado_financiero_config) r"
    by code_simp+
  have num: "year_cells_numeric [''2024''] no_match_frame"
    by code_simp
  from missing_concept_handling [OF a na] num obtain st where
    ex: "extract_all example_lib (KPIExtractor no_match_frame [''2024'']) = Inr st"
    by blast
  have ra: "required ingresos_config" and rb: "\<not> required resultado_financiero_config"
    and db: "default_value resultado_financiero_config = 0"
    by (simp_all add: ingresos_config_def resultado_financiero_config_def)
  from missing_concept_handling [OF a na] ex ra
  have "x_kpis st ''ingresos'' = None" "''ingresos'' \<in> set (get_missing_kpis st)"
    by auto
  moreover from missing_concept_handling [OF b nb] ex rb db
  have "\<exists>d. x_kpis st ''resultado_financiero'' = Some d \<and> d ''2024'' = Some (IntC 0)"
    by auto
  ultimately show ?thesis
    using ex by (auto simp: kpi_at_def missing_of_def)
qed

text \<open>
  C6 (as the code has it). For every grid and every concept, the row whose values populate
  the KPI map entry is the first row in grid order in which some single cell outside the
  year columns has a non-empty text that one of the concept's patterns matches, searched
  case-insensitively in the lowered and stripped text; the rows after it play no part.
  The cells of a row are tested one by one and are not concatenated.
\<close>

theorem first_matching_row:
  assumes "i < length rs"
      and "row_found E ys (patterns cfg) (rs ! i)"
      and "\<forall>j < i. \<not> row_found E ys (patterns cfg) (rs ! j)"
  shows "find_kpi E ys cfg rs =
           (case collect (kpi_value (sign cfg) (rs ! i)) ys Map.empty of
              Inl e \<Rightarrow> Inl e
            | Inr result \<Rightarrow> Inr (Some result))
       \<and> find_kpi E ys cfg rs = find_kpi E ys cfg (take (Suc i) rs)
       \<and> (\<exists>col \<in> set (row_index (rs ! i)). col \<notin> set ys
             \<and> py_str E (row_get (rs ! i) col (Txt '''')) \<noteq> []
             \<and> (\<exists>p \<in> set (patterns cfg).
                    re_search True p (strip (lower (py_str E (row_get (rs ! i) col (Txt '''')))))))"
proof -
  have first: "find_kpi E ys cfg xs =
           (case collect (kpi_value (sign cfg) (xs ! i)) ys Map.empty of
              Inl e \<Rightarrow> Inl e
            | Inr result \<Rightarrow> Inr (Some result))"
    if "i < length xs" "row_found E ys (patterns cfg) (xs ! i)"
       "\<forall>j < i. \<not> row_found E ys (patterns cfg) (xs ! j)" for xs
    using that
  proof (induction xs arbitrary: i)
    case Nil
    then show ?case by simp
  next
    case (Cons x xs)
    show ?case
    proof (cases i)
      case 0
      with Cons.prems show ?thesis by simp
    next
      case (Suc k)
      with Cons.prems have "\<not> row_found E ys (patterns cfg) x" by auto
      moreover from Suc Cons.prems have "k < length xs" "row_found E ys (patterns cfg) (xs ! k)"
        "\<forall>j < k. \<not> row_found E ys (patterns cfg) (xs ! j)" by auto
      ultimately show ?thesis using Cons.IH [of k] Suc by simp
    qed
  qed
  have t: "Suc i \<le> length rs" using assms(1) by simp
  have "i < length (take (Suc i) rs)" "take (Suc i) rs ! i = rs ! i"
    "\<forall>j < i. take (Suc i) rs ! j = rs ! j"
    using assms(1) by simp_all
  with assms(2,3) first [of "take (Suc i) rs"] first [OF assms]
  have two: "find_kpi E ys cfg rs = find_kpi E ys cfg (take (Suc i) rs)"
    by simp
  from assms(2) have three: "\<exists>col \<in> set (row_index (rs ! i)). col \<notin> set ys
             \<and> py_str E (row_get (rs ! i) col (Txt '''')) \<noteq> []
             \<and> (\<exists>p \<in> set (patterns cfg).
                    re_search True p (strip (lower (py_str E (row_get (rs ! i) col (Txt ''''))))))"
    by (auto simp: row_found_def match_pattern_def list_ex_iff Let_def)
  from first [OF assms] two three show ?thesis by blast
qed


theorem first_matching_row_witness:
  "found_at (find_kpi example_lib default_years gastos_personal_config
       (iterrows split_label_frame)) ''2025'' = Some (FloatC 500)"
proof -
  have p: "patterns gastos_personal_config = gastos_personal_patterns"
    by (simp add: gastos_personal_config_def)
  have l: "1 < length (iterrows split_label_frame)"
    by code_simp
  have m: "row_found example_lib default_years (patterns gastos_personal_config)
             (iterrows split_label_frame ! 1)"
    unfolding p by code_simp
  have n: "\<forall>j < 1. \<not> row_found example_lib default_years (patterns gastos_personal_config)
             (iterrows split_label_frame ! j)"
    unfolding p by code_simp
  have v: "found_at (case collect (kpi_value (sign gastos_personal_config)
                 (iterrows split_label_frame ! 1)) default_years Map.empty of
              Inl e \<Rightarrow> Inl e
            | Inr result \<Rightarrow> Inr (Some result)) ''2025'' = Some (FloatC 500)"
    by code_simp
  from first_matching_row [OF l m n] v show ?thesis by simp
qed

text \<open>
  The statement of the specification takes the first row whose cells, concatenated, match. In
  \<open>split_label_frame\<close> the first row matches \<^verbatim>\<open>gastos\s+de\s+personal\<close> when its cells are
  concatenated (with or without a separating space) and holds \<open>-100\<close> for 2025; the code
  passes it over and stores the \<open>500\<close> of the second row.
\<close>

theorem concatenated_cells_not_matched:
  "row_found_concatenated example_lib default_years [] gastos_personal_patterns
     (iterrows split_label_frame ! 0)
   \<and> row_found_concatenated example_lib default_years '' '' gastos_personal_patterns
     (iterrows split_label_frame ! 0)
   \<and> row_get (iterrows split_label_frame ! 0) ''2025'' NaN = FloatC (- 100)
   \<and> found_at (find_kpi example_lib default_years gastos_personal_config
        (iterrows split_label_frame)) ''2025'' = Some (FloatC 500)"
  by code_simp


section \<open>Properties of the detail-section extractor\<close>









lemma rx_item_prefix:
  "rx False (seqs [Bol, str [a, b, c], Lit d, str [e], Lit f, str [g], Lit h]) p s =
     (if p = None \<and> take 8 s = [a, b, c, d, e, f, g, h] then [(Some h, drop 8 s)] else [])"
proof -
  have *: "rx False (seqs [Bol, str [a, b, c], Lit d, str [e], Lit f, str [g], Lit h]) p s =
     (if p = None then
        (case s of a' # b' # c' # d' # e' # f' # g' # h' # t \<Rightarrow>
           if [a', b', c', d', e', f', g', h'] = [a, b, c, d, e, f, g, h] then [(Some h', t)] else []
         | _ \<Rightarrow> [])
      else [])"
    by (simp add: seqs_def str_def rx_Lit_case same_char_def split: list.splits)
  show ?thesis
    unfolding * by (auto split: list.splits)
qed

lemma sub_from_anchored:
  assumes "\<And>q t. q \<noteq> None \<Longrightarrow> rx False r q t = []"
  shows "p \<noteq> None \<Longrightarrow> sub_from r p s = s"
proof (induction s arbitrary: p)
  case Nil
  with assms show ?case by (subst sub_from.simps) simp
next
  case (Cons c cs)
  from Cons.prems assms have "rx False r p (c # cs) = []" by simp
  then show ?case
    using Cons.IH [of "Some c"] by (subst sub_from.simps) simp
qed

lemma item_pattern_sub:
  assumes "re_match False servicios_item_pattern c"
  shows "take 8 c = ''705.0.0.'' \<and> re_sub_empty servicios_item_pattern c = drop 8 c"
proof -
  have rxs: "rx False servicios_item_pattern p s =
     (if p = None \<and> take 8 s = ''705.0.0.'' then [(Some CHR ''.'', drop 8 s)] else [])" for p s
    unfolding servicios_item_pattern_def by (rule rx_item_prefix)
  from assms have t: "take 8 c = ''705.0.0.''"
    by (auto simp: re_match_def rxs split: if_splits)
  then have len: "length (drop 8 c) < length c"
    by (cases c) auto
  have later: "sub_from servicios_item_pattern (Some CHR ''.'') (drop 8 c) = drop 8 c"
    by (rule sub_from_anchored) (simp_all add: rxs)
  have "sub_from servicios_item_pattern None c = drop 8 c"
    using t len later by (subst sub_from.simps) (simp add: rxs)
  with t show ?thesis by (simp add: re_sub_empty_def)
qed


lemma servicios_loop_snoc:
  "servicios_loop E ys (rs @ [r]) st = servicios_step E ys r (servicios_loop E ys rs st)"
  by (simp add: servicios_loop_def)

lemma servicios_step_flag:
  "fst (servicios_step E ys r (b, acc)) =
     (if is_parent_row E r then True else if is_stop_row E r then False else b)"
  by (auto simp: servicios_step_def is_parent_row_def is_stop_row_def Let_def)

lemma servicios_step_map:
  "snd (servicios_step E ys r (b, acc)) =
     (if b \<and> \<not> is_parent_row E r \<and> \<not> is_stop_row E r \<and> is_item_row E r
      then acc(servicio_name E r \<mapsto> raw_values ys r) else acc)"
  by (auto simp: servicios_step_def is_parent_row_def is_stop_row_def is_item_row_def
      servicio_name_def Let_def)

lemma servicios_loop_flag:
  "fst (servicios_loop E ys rs (b, acc)) = fst (servicios_loop E ys' rs (b, acc'))"
proof (induction rs rule: rev_induct)
  case Nil
  then show ?case by (simp add: servicios_loop_def)
next
  case (snoc r rs)
  obtain b1 a1 where l1: "servicios_loop E ys rs (b, acc) = (b1, a1)"
    by (cases "servicios_loop E ys rs (b, acc)")
  obtain b2 a2 where l2: "servicios_loop E ys' rs (b, acc') = (b2, a2)"
    by (cases "servicios_loop E ys' rs (b, acc')")
  from snoc l1 l2 have "b1 = b2" by simp
  with l1 l2 show ?case
    by (simp add: servicios_loop_snoc servicios_step_flag)
qed

lemma window_after_snoc:
  "window_after E (rs @ [r]) =
     (if is_parent_row E r then True else if is_stop_row E r then False else window_after E rs)"
proof -
  obtain b a where l: "servicios_loop E [] rs (False, Map.empty) = (b, a)"
    by (cases "servicios_loop E [] rs (False, Map.empty)")
  then show ?thesis
    using servicios_step_flag [of E "[]" r b a]
    by (simp add: window_after_def servicios_loop_snoc)
qed

lemma servicios_map_snoc:
  "snd (servicios_loop E ys (rs @ [r]) (False, Map.empty)) =
     (if window_after E rs \<and> \<not> is_parent_row E r \<and> \<not> is_stop_row E r \<and> is_item_row E r
      then (snd (servicios_loop E ys rs (False, Map.empty)))(servicio_name E r \<mapsto> raw_values ys r)
      else snd (servicios_loop E ys rs (False, Map.empty)))"
proof -
  obtain b a where l: "servicios_loop E ys rs (False, Map.empty) = (b, a)"
    by (cases "servicios_loop E ys rs (False, Map.empty)")
  have "window_after E rs = b"
    using servicios_loop_flag [of E "[]" rs False Map.empty ys Map.empty] l
    by (simp add: window_after_def)
  with l show ?thesis
    using servicios_step_map [of E ys r b a] by (simp add: servicios_loop_snoc)
qed

lemma captured_snoc:
  "i < length rs \<Longrightarrow> captured E (rs @ [r]) i = captured E rs i"
  "captured E (rs @ [r]) (length rs) =
     (window_after E rs \<and> \<not> is_parent_row E r \<and> \<not> is_stop_row E r \<and> is_item_row E r)"
  by (simp_all add: captured_def nth_append)

lemma servicios_only_captured:
  assumes "snd (servicios_loop E ys rs (False, Map.empty)) name = Some vs"
  shows "\<exists>i < length rs. captured E rs i \<and> servicio_name E (rs ! i) = name
           \<and> vs = raw_values ys (rs ! i)"
  using assms
proof (induction rs rule: rev_induct)
  case Nil
  then show ?case by (simp add: servicios_loop_def)
next
  case (snoc r rs)
  show ?case
  proof (cases "captured E (rs @ [r]) (length rs) \<and> servicio_name E r = name")
    case True
    with snoc.prems have "vs = raw_values ys r"
      by (simp add: servicios_map_snoc captured_snoc)
    with True show ?thesis
      by (intro exI [of _ "length rs"]) simp
  next
    case False
    with snoc.prems have "snd (servicios_loop E ys rs (False, Map.empty)) name = Some vs"
      by (auto simp: servicios_map_snoc captured_snoc split: if_splits)
    from snoc.IH [OF this] obtain i where
      "i < length rs" "captured E rs i" "servicio_name E (rs ! i) = name"
      "vs = raw_values ys (rs ! i)" by blast
    then show ?thesis
      by (intro exI [of _ i]) (simp add: captured_snoc nth_append)
  qed
qed

lemma servicios_last_wins:
  assumes "i < length rs" and "captured E rs i"
      and "\<forall>j. i < j \<and> j < length rs \<and> captured E rs j \<longrightarrow>
             servicio_name E (rs ! j) \<noteq> servicio_name E (rs ! i)"
  shows "snd (servicios_loop E ys rs (False, Map.empty)) (servicio_name E (rs ! i)) =
           Some (raw_values ys (rs ! i))"
  using assms
proof (induction rs rule: rev_induct)
  case Nil
  then show ?case by simp
next
  case (snoc r rs)
  show ?case
  proof (cases "i = length rs")
    case True
    with snoc.prems(2) show ?thesis
      by (simp add: servicios_map_snoc captured_snoc)
  next
    case False
    with snoc.prems(1) have i: "i < length rs" by simp
    with snoc.prems(2) have c: "captured E rs i" by (simp add: captured_snoc)
    have later: "\<forall>j. i < j \<and> j < length rs \<and> captured E rs j \<longrightarrow>
             servicio_name E (rs ! j) \<noteq> servicio_name E (rs ! i)"
    proof (intro allI impI)
      fix j assume j: "i < j \<and> j < length rs \<and> captured E rs j"
      then have "i < j \<and> j < length (rs @ [r]) \<and> captured E (rs @ [r]) j"
        by (simp add: captured_snoc)
      with snoc.prems(3) have "servicio_name E ((rs @ [r]) ! j) \<noteq> servicio_name E ((rs @ [r]) ! i)"
        by blast
      with i j show "servicio_name E (rs ! j) \<noteq> servicio_name E (rs ! i)"
        by (simp add: nth_append)
    qed
    from snoc.IH [OF i c later]
    have ih: "snd (servicios_loop E ys rs (False, Map.empty)) (servicio_name E (rs ! i)) =
                Some (raw_values ys (rs ! i))" .
    have "captured E (rs @ [r]) (length rs) \<longrightarrow> servicio_name E r \<noteq> servicio_name E (rs ! i)"
      using snoc.prems(3) i by (auto simp: nth_append)
    with ih i show ?thesis
      by (auto simp: servicios_map_snoc captured_snoc nth_append)
  qed
qed

text \<open>
  C7 (as the code has it). In the bounded-section extraction of \<open>servicios\<close> the window flag
  starts false; a parent row sets it, a stop row clears it, any other row leaves it as it
  is. Every entry of the map comes from a captured row: one reached with the flag set that
  is neither a parent row nor a stop row and matches the item pattern; so the parent row
  and the stop row are never captured, and an item row met while the flag is clear is
  left out. A captured row is recorded under its name with the cells of its year
  columns, and stays in the map unless a later captured row has the same name, which then
  overwrites it. The name of an item row: the prefix \<^verbatim>\<open>705.0.0.\<close> is removed and the rest
  stripped; if the rest contains a space character the name is what follows the first
  space, otherwise it is the whole rest. The witness is Scenario E.
\<close>

theorem servicios_window:
  "window_after E [] = False
   \<and> (\<forall>rs r. window_after E (rs @ [r]) =
         (if is_parent_row E r then True else if is_stop_row E r then False
          else window_after E rs))
   \<and> (\<forall>name vs. extract_servicios E (KPIExtractor f ys) name = Some vs \<longrightarrow>
         (\<exists>i < length (iterrows f). captured E (iterrows f) i
             \<and> servicio_name E (iterrows f ! i) = name
             \<and> vs = raw_values ys (iterrows f ! i)))
   \<and> (\<forall>i. i < length (iterrows f) \<and> captured E (iterrows f) i
           \<and> (\<forall>j. i < j \<and> j < length (iterrows f) \<and> captured E (iterrows f) j \<longrightarrow>
                  servicio_name E (iterrows f ! j) \<noteq> servicio_name E (iterrows f ! i))
         \<longrightarrow> extract_servicios E (KPIExtractor f ys) (servicio_name E (iterrows f ! i)) =
               Some (raw_values ys (iterrows f ! i)))
   \<and> (\<forall>r. is_item_row E r \<longrightarrow>
         take 8 (concepto_of E r) = ''705.0.0.''
         \<and> servicio_name E r =
             (let rest = strip (drop 8 (concepto_of E r))
              in if has_space rest then after_first_space rest else rest))"
proof (intro conjI allI impI)
  show "window_after E [] = False"
    by (simp add: window_after_def servicios_loop_def)
next
  fix rs r
  show "window_after E (rs @ [r]) =
         (if is_parent_row E r then True else if is_stop_row E r then False
          else window_after E rs)"
    by (rule window_after_snoc)
next
  fix name vs
  assume "extract_servicios E (KPIExtractor f ys) name = Some vs"
  then have "snd (servicios_loop E ys (iterrows f) (False, Map.empty)) name = Some vs"
    by (simp add: extract_servicios_def KPIExtractor_fields)
  then show "\<exists>i < length (iterrows f). captured E (iterrows f) i
             \<and> servicio_name E (iterrows f ! i) = name
             \<and> vs = raw_values ys (iterrows f ! i)"
    by (rule servicios_only_captured)
next
  fix i
  assume a: "i < length (iterrows f) \<and> captured E (iterrows f) i
           \<and> (\<forall>j. i < j \<and> j < length (iterrows f) \<and> captured E (iterrows f) j \<longrightarrow>
                  servicio_name E (iterrows f ! j) \<noteq> servicio_name E (iterrows f ! i))"
  then have "snd (servicios_loop E ys (iterrows f) (False, Map.empty))
               (servicio_name E (iterrows f ! i)) = Some (raw_values ys (iterrows f ! i))"
    by (intro servicios_last_wins) blast+
  then show "extract_servicios E (KPIExtractor f ys) (servicio_name E (iterrows f ! i)) =
               Some (raw_values ys (iterrows f ! i))"
    by (simp add: extract_servicios_def KPIExtractor_fields)
next
  fix r assume "is_item_row E r"
  then have "re_match False servicios_item_pattern (concepto_of E r)"
    by (simp add: is_item_row_def)
  from item_pattern_sub [OF this]
  show "take 8 (concepto_of E r) = ''705.0.0.''"
    and "servicio_name E r =
             (let rest = strip (drop 8 (concepto_of E r))
              in if has_space rest then after_first_space rest else rest)"
    by (simp_all add: servicio_name_def item_name_def)
qed

theorem servicios_window_witness:
  "detail_at (extract_servicios example_lib (KPIExtractor scenario_e [''2024'']))
       ''Consultoria'' ''2024'' = Some (FloatC 100)
   \<and> detail_at (extract_servicios example_lib (KPIExtractor scenario_e [''2024'']))
       ''Formacion'' ''2024'' = Some (FloatC 200)
   \<and> detail_at (extract_servicios example_lib (KPIExtractor scenario_e [''2024'']))
       ''Auditoria'' ''2024'' = None
   \<and> detail_at (extract_servicios example_lib (KPIExtractor scenario_e [''2024'']))
       ''PRESTACIONES DE SERVICIOS'' ''2024'' = None"
proof -
  have l: "1 < length (iterrows scenario_e)"
    and c: "captured example_lib (iterrows scenario_e) 1"
    and n: "servicio_name example_lib (iterrows scenario_e ! 1) = ''Consultoria''"
    and v: "raw_values [''2024''] (iterrows scenario_e ! 1) ''2024'' = Some (FloatC 100)"
    by code_simp+
  have later: "\<forall>j. 1 < j \<and> j < length (iterrows scenario_e)
                 \<and> captured example_lib (iterrows scenario_e) j \<longrightarrow>
               servicio_name example_lib (iterrows scenario_e ! j)
                 \<noteq> servicio_name example_lib (iterrows scenario_e ! 1)"
  proof (intro allI impI)
    fix j
    assume j: "1 < j \<and> j < length (iterrows scenario_e)
                 \<and> captured example_lib (iterrows scenario_e) j"
    have len: "length (iterrows scenario_e) = 5"
      and c2: "servicio_name example_lib (iterrows scenario_e ! 2)
                 \<noteq> servicio_name example_lib (iterrows scenario_e ! 1)"
      and c3: "\<not> captured example_lib (iterrows scenario_e) 3"
      and c4: "\<not> captured example_lib (iterrows scenario_e) 4"
      by code_simp+
    from j len have "j = 2 \<or> j = 3 \<or> j = 4" by auto
    with j c2 c3 c4
    show "servicio_name example_lib (iterrows scenario_e ! j)
            \<noteq> servicio_name example_lib (iterrows scenario_e ! 1)"
      by auto
  qed
  from servicios_window [of example_lib scenario_e "[''2024'']"] l c later
  have "extract_servicios example_lib (KPIExtractor scenario_e [''2024''])
          (servicio_name example_lib (iterrows scenario_e ! 1)) =
        Some (raw_values [''2024''] (iterrows scenario_e ! 1))"
    by blast
  with n v have first: "detail_at (extract_servicios example_lib
       (KPIExtractor scenario_e [''2024''])) ''Consultoria'' ''2024'' = Some (FloatC 100)"
    by (simp add: detail_at_def)
  have rest: "detail_at (extract_servicios example_lib (KPIExtractor scenario_e [''2024'']))
       ''Formacion'' ''2024'' = Some (FloatC 200)
   \<and> detail_at (extract_servicios example_lib (KPIExtractor scenario_e [''2024'']))
       ''Auditoria'' ''2024'' = None
   \<and> detail_at (extract_servicios example_lib (KPIExtractor scenario_e [''2024'']))
       ''PRESTACIONES DE SERVICIOS'' ''2024'' = None"
    by code_simp
  from first rest show ?thesis by simp
qed

text \<open>
  The statement of the specification takes the remainder after the first whitespace as the name. For
  the label \<^verbatim>\<open>705.0.0.1<TAB>Consultoria\<close> that is \<^verbatim>\<open>Consultoria\<close>, and the code stores the row
  under \<^verbatim>\<open>1<TAB>Consultoria\<close>: only a space character splits. For \<^verbatim>\<open>705.0.0.Formacion\<close> no
  whitespace follows the prefix, nothing remains after it, and the code stores the row
  under \<^verbatim>\<open>Formacion\<close>.
\<close>

theorem servicio_name_without_space:
  "item_name_after_whitespace servicios_item_pattern tab_label = ''Consultoria''
   \<and> detail_at (extract_servicios example_lib (KPIExtractor unspaced_label_frame [''2024'']))
       ''Consultoria'' ''2024'' = None
   \<and> detail_at (extract_servicios example_lib (KPIExtractor unspaced_label_frame [''2024'']))
       (''1'' @ [CHR 0x09] @ ''Consultoria'') ''2024'' = Some (FloatC 100)
   \<and> item_name_after_whitespace servicios_item_pattern ''705.0.0.Formacion'' = []
   \<and> detail_at (extract_servicios example_lib (KPIExtractor unspaced_label_frame [''2024'']))
       ''Formacion'' ''2024'' = Some (FloatC 200)"
  by code_simp


section \<open>Properties of the tabular ingestor\<close>

lemma rx_year_alternative:
  "rx False (seqs [str [a, b], dig, dig]) p s =
     (case s of a' # b' # c # d # t \<Rightarrow>
        if a' = a \<and> b' = b \<and> c \<in> set digits \<and> d \<in> set digits then [(Some d, t)] else []
      | _ \<Rightarrow> [])"
  by (simp add: seqs_def str_def dig_def rx_Lit_case rx_Cls_case same_char_def in_class_def
      split: list.splits)

lemma year_pattern_shape:
  assumes "re_match False year_pattern s"
  shows "\<exists>a b c d. (s = [a, b, c, d] \<or> s = [a, b, c, d, CHR 0x0A])
           \<and> set [a, b, c, d] \<subseteq> set digits"
proof -
  have y: "year_pattern = Seq Bol (Seq (Alt (seqs [str ''20'', dig, dig]) (seqs [str ''19'', dig, dig]))
             (Seq Eol Eps))"
    by (simp add: year_pattern_def seqs_def)
  from assms obtain a b c d t where s: "s = a # b # c # d # t"
    and dg: "c \<in> set digits" "d \<in> set digits" and ab: "[a, b] = ''20'' \<or> [a, b] = ''19''"
    and t: "t = [] \<or> t = [CHR 0x0A]"
    unfolding re_match_def y
    by (auto simp: rx_year_alternative split: list.splits if_splits)
  from ab have "a \<in> set digits" "b \<in> set digits"
    by (auto simp: digits_def)
  with s dg t show ?thesis by auto
qed


lemma strip_last:
  assumes "strip s = xs @ [c]"
  shows "\<not> is_space c"
proof -
  from assms have "rev (strip s) = c # rev xs" by simp
  then have "dropWhile is_space (rev (dropWhile is_space s)) = c # rev xs"
    by (simp add: strip_def)
  then show ?thesis
    by (simp add: dropWhile_eq_Cons_conv)
qed

lemma year_token_shape:
  assumes "year_token E v = Some y"
  shows "length y = 4 \<and> set y \<subseteq> set digits"
proof -
  from assms have y: "y = strip (py_str E v)" and m: "re_match False year_pattern y"
    by (auto simp: year_token_def Let_def split: if_splits)
  from year_pattern_shape [OF m] obtain a b c d where
    s: "y = [a, b, c, d] \<or> y = [a, b, c, d, CHR 0x0A]" and dg: "set [a, b, c, d] \<subseteq> set digits"
    by blast
  have "y \<noteq> [a, b, c, d, CHR 0x0A]"
  proof
    assume "y = [a, b, c, d, CHR 0x0A]"
    with y have "strip (py_str E v) = [a, b, c, d] @ [CHR 0x0A]" by simp
    from strip_last [OF this] show False
      by (simp add: is_space_def whitespace_def)
  qed
  with s dg show ?thesis by auto
qed

lemma year_cells_of_shape:
  assumes "(i, y) \<in> set (year_cells_of E cs)"
  shows "length y = 4 \<and> set y \<subseteq> set digits"
proof -
  from assms obtain v where "year_token E v = Some y"
    by (auto simp: year_cells_of_def split: option.splits)
  then show ?thesis by (rule year_token_shape)
qed

lemma detected_years_shape:
  assumes "(i, y) \<in> set (header_years E raw) \<or> (i, y) \<in> set (row_years E raw)"
  shows "length y = 4 \<and> set y \<subseteq> set digits"
  using assms
  by (auto simp: header_years_def row_years_def dest: year_cells_of_shape)

lemma sorted_set_reverse_props:
  "distinct (sorted_set_reverse xs)"
  "sorted_wrt (\<lambda>a b. b < a) (sorted_set_reverse xs)"
  "set (sorted_set_reverse xs) = set xs"
proof -
  show "distinct (sorted_set_reverse xs)"
    by (simp add: sorted_set_reverse_def)
  have "sorted_wrt (<) (sort (remdups xs))"
    by (simp add: strict_sorted_iff)
  then show "sorted_wrt (\<lambda>a b. b < a) (sorted_set_reverse xs)"
    by (simp add: sorted_set_reverse_def sorted_wrt_rev)
  show "set (sorted_set_reverse xs) = set xs"
    by (simp add: sorted_set_reverse_def)
qed

lemma sorted_set_reverse_empty: "sorted_set_reverse xs = [] \<longleftrightarrow> xs = []"
  using sorted_set_reverse_props(3) [of xs] by (metis set_empty)


lemma default_years_distinct: "default_years \<noteq> [] \<and> distinct default_years"
  by (simp add: default_years_def)

lemma default_years_sorted: "sorted_wrt (\<lambda>a b. b < a) default_years"
  by code_simp

lemma default_years_shape: "y \<in> set default_years \<Longrightarrow> length y = 4 \<and> set y \<subseteq> set digits"
  by (auto simp: default_years_def digits_def)

lemma clean_data_years: "l_years (clean_data E st) = l_years st"
  by (simp add: clean_data_def split: option.splits)

lemma load_accepts:
  assumes "\<not> isl (fst (load E st input))"
  shows "\<exists>raw st2. input = Some raw
           \<and> detect_and_rename_columns E raw (st\<lparr>l_raw_df := Some raw\<rparr>) = Inr st2
           \<and> get_years (snd (load E st input)) = l_years st2"
proof (cases input)
  case None
  with assms show ?thesis by (simp add: load_def)
next
  case (Some raw)
  show ?thesis
  proof (cases "detect_and_rename_columns E raw (st\<lparr>l_raw_df := Some raw\<rparr>)")
    case (Inl e)
    with Some assms show ?thesis by (simp add: load_def Let_def)
  next
    case (Inr st2)
    with Some have "get_years (snd (load E st input)) = l_years st2"
      by (simp add: load_def Let_def get_years_def clean_data_years
          split: sum.splits option.splits)
    with Some Inr show ?thesis by simp
  qed
qed

lemma detect_years:
  assumes "detect_and_rename_columns E raw st1 = Inr st2"
  shows "l_years st2 \<noteq> [] \<and> distinct (l_years st2)
         \<and> sorted_wrt (\<lambda>a b. b < a) (l_years st2)
         \<and> (\<forall>y \<in> set (l_years st2). length y = 4 \<and> set y \<subseteq> set digits)"
proof (cases "header_years E raw = [] \<and> row_years E raw = []")
  case True
  with assms have "l_years st2 = default_years"
    by (auto simp: detect_and_rename_columns_def Let_def split: if_splits sum.splits)
  with default_years_distinct default_years_sorted default_years_shape show ?thesis
    by simp
next
  case False
  define yc where "yc = (if header_years E raw \<noteq> [] then header_years E raw else row_years E raw)"
  with False have ne: "yc \<noteq> []" by auto
  have shape: "length y = 4 \<and> set y \<subseteq> set digits" if "y \<in> set (map snd yc)" for y
  proof -
    from that obtain i where "(i, y) \<in> set yc" by auto
    then have "(i, y) \<in> set (header_years E raw) \<or> (i, y) \<in> set (row_years E raw)"
      by (auto simp: yc_def split: if_splits)
    then show ?thesis by (rule detected_years_shape)
  qed
  from ne have n2: "sorted_set_reverse (map snd yc) \<noteq> []"
    by (simp add: sorted_set_reverse_empty)
  with assms ne have eq: "l_years st2 = sorted_set_reverse (map snd yc)"
    by (auto simp: detect_and_rename_columns_def Let_def yc_def split: if_splits)
  show ?thesis
    unfolding eq using n2 shape
    by (simp add: sorted_set_reverse_props)
qed

text \<open>
  C8. For every input that \<^verbatim>\<open>load\<close> accepts without raising, \<^verbatim>\<open>get_years()\<close> afterwards is a
  non-empty, duplicate-free list of strings of four digits, strictly descending: on the
  detection path as \<^verbatim>\<open>sorted(set(...), reverse=True)\<close> of matched year tokens, on the
  positional fallback as the fixed list.
\<close>

theorem years_after_load:
  assumes "\<not> isl (fst (load E st input))"
  shows "get_years (snd (load E st input)) \<noteq> []
       \<and> distinct (get_years (snd (load E st input)))
       \<and> sorted_wrt (\<lambda>a b. b < a) (get_years (snd (load E st input)))
       \<and> (\<forall>y \<in> set (get_years (snd (load E st input))). length y = 4 \<and> set y \<subseteq> set digits)"
proof -
  from load_accepts [OF assms] obtain raw st2 where
    d: "detect_and_rename_columns E raw (st\<lparr>l_raw_df := Some raw\<rparr>) = Inr st2"
    and g: "get_years (snd (load E st input)) = l_years st2"
    by blast
  from detect_years [OF d] show ?thesis
    unfolding g .
qed

theorem years_after_load_witness:
  "get_years (snd (load example_lib DataLoader (Some headed_frame))) = [''2024'', ''2023'']
   \<and> get_years (snd (load example_lib DataLoader (Some legacy_frame)))
       = [''2025'', ''2024'', ''2023'', ''2022'']
   \<and> distinct (get_years (snd (load example_lib DataLoader (Some headed_frame))))
   \<and> sorted_wrt (\<lambda>a b. b < a) (get_years (snd (load example_lib DataLoader (Some legacy_frame))))"
proof -
  have a: "\<not> isl (fst (load example_lib DataLoader (Some headed_frame)))"
    and b: "\<not> isl (fst (load example_lib DataLoader (Some legacy_frame)))"
    by code_simp+
  have c: "get_years (snd (load example_lib DataLoader (Some headed_frame))) = [''2024'', ''2023'']"
    and d: "get_years (snd (load example_lib DataLoader (Some legacy_frame)))
       = [''2025'', ''2024'', ''2023'', ''2022'']"
    by code_simp+
  from years_after_load [OF a] years_after_load [OF b] c d show ?thesis
    by simp
qed


lemma detect_no_years:
  assumes "header_years E raw = []" and "row_years E raw = []"
  shows "detect_and_rename_columns E raw st1 =
           (if length (headers raw) \<ge> 10
            then (case set_columns raw default_columns of
                    Inl e \<Rightarrow> Inl e
                  | Inr new_df \<Rightarrow> Inr (st1\<lparr>l_df := Some new_df, l_years := default_years\<rparr>))
            else Inl ValidationError)"
  using assms by (simp add: detect_and_rename_columns_def)

lemma set_columns_ten:
  assumes "length names = 10"
  shows "set_columns raw names =
           (if length (headers raw) = 10
            then Inr \<lparr>columns = names, cells = map (\<lambda>r. map (cell_at r) [0 ..< 10]) (body raw)\<rparr>
            else Inl ValueError)"
  using assms by (auto simp: set_columns_def)

lemma default_columns_length: "length default_columns = 10" "length balance_columns = 10"
  by (simp_all add: default_columns_def balance_columns_def)

text \<open>
  C9. For every P&L spreadsheet with fewer than 10 columns in which no year token is found
  in the headers nor in the first 5 data rows, \<^verbatim>\<open>load\<close> raises \<^verbatim>\<open>ValidationError\<close> (which is
  not the \<^verbatim>\<open>DataLoadError\<close> of a failed read) and the loader holds no new frame.
\<close>

theorem too_few_columns_rejected:
  assumes "length (headers raw) < 10"
      and "header_years E raw = []" and "row_years E raw = []"
  shows "fst (load E st (Some raw)) = Inl ValidationError
       \<and> l_df (snd (load E st (Some raw))) = l_df st
       \<and> Inl ValidationError \<noteq> (Inl DataLoadError :: error + frame)"
  using assms by (simp add: load_def Let_def detect_no_years)

theorem too_few_columns_rejected_witness:
  "fst (load example_lib DataLoader (Some narrow_frame)) = Inl ValidationError
   \<and> l_df (snd (load example_lib DataLoader (Some narrow_frame))) = None"
proof -
  have a: "length (headers narrow_frame) < 10"
    and b: "header_years example_lib narrow_frame = []"
    and c: "row_years example_lib narrow_frame = []"
    by code_simp+
  from too_few_columns_rejected [OF a b c, of DataLoader] show ?thesis
    by (simp add: DataLoader_def)
qed

text \<open>
  C10. The assignment of ten column names fails with a \<^verbatim>\<open>ValueError\<close>, which is not a
  \<^verbatim>\<open>ValidationError\<close>, outside the shape of exactly ten columns: \<^verbatim>\<open>DataLoader.load\<close> raises
  it for a grid with more than 10 columns and no detectable year token, so that without
  year tokens \<^verbatim>\<open>load\<close> can only succeed on exactly 10 columns; and \<^verbatim>\<open>BalanceLoader.load\<close>
  raises it for every first sheet that does not have exactly 10 columns.
\<close>

theorem column_length_mismatch:
  "(length (headers raw) > 10 \<and> header_years E raw = [] \<and> row_years E raw = []
      \<longrightarrow> fst (load E st (Some raw)) = Inl ValueError)
   \<and> (header_years E raw = [] \<and> row_years E raw = [] \<and> \<not> isl (fst (load E st (Some raw)))
      \<longrightarrow> length (headers raw) = 10)
   \<and> (length (headers raw) \<noteq> 10 \<longrightarrow> balance_load E raw = Inl ValueError)
   \<and> ValueError \<noteq> ValidationError"
proof (intro conjI impI)
  assume "length (headers raw) > 10 \<and> header_years E raw = [] \<and> row_years E raw = []"
  then show "fst (load E st (Some raw)) = Inl ValueError"
    by (simp add: load_def Let_def detect_no_years set_columns_ten default_columns_length)
next
  assume a: "header_years E raw = [] \<and> row_years E raw = []
             \<and> \<not> isl (fst (load E st (Some raw)))"
  show "length (headers raw) = 10"
  proof (rule ccontr)
    assume "length (headers raw) \<noteq> 10"
    with a have "isl (fst (load E st (Some raw)))"
      by (simp add: load_def Let_def detect_no_years set_columns_ten default_columns_length)
    with a show False by simp
  qed
next
  assume "length (headers raw) \<noteq> 10"
  then show "balance_load E raw = Inl ValueError"
    by (simp add: balance_load_def set_columns_ten default_columns_length)
next
  show "ValueError \<noteq> ValidationError" by simp
qed

theorem column_length_mismatch_witness:
  "fst (load example_lib DataLoader (Some wide_frame)) = Inl ValueError
   \<and> balance_load example_lib wide_frame = Inl ValueError
   \<and> balance_load example_lib narrow_frame = Inl ValueError"
proof -
  have a: "length (headers wide_frame) > 10"
    and b: "header_years example_lib wide_frame = []"
    and c: "row_years example_lib wide_frame = []"
    and d: "length (headers wide_frame) \<noteq> 10"
    and e: "length (headers narrow_frame) \<noteq> 10"
    by code_simp+
  from column_length_mismatch [of wide_frame example_lib DataLoader] a b c d
    column_length_mismatch [of narrow_frame example_lib DataLoader] e
  show ?thesis by simp
qed

lemma clean_default_cell:
  assumes "k < 10"
  shows "map (\<lambda>(name, v). if name \<in> set default_years then to_numeric_fillna E v else v)
           (zip default_columns (map (cell_at r) [0 ..< 10])) ! k =
         (if 6 \<le> k then to_numeric_fillna E (cell_at r k) else cell_at r k)"
proof -
  from assms have "k \<in> {0, 1, 2, 3, 4, 5, 6, 7, 8, 9}" by auto
  then show ?thesis
    by (auto simp: default_columns_def default_years_def upt_rec numeral_eq_Suc)
qed

text \<open>
  C3 (as the code has it). For every P&L grid with exactly 10 columns in which no year
  token is found in the headers nor in the first 5 data rows, \<^verbatim>\<open>load\<close> applies the
  positional fallback: the ten columns are renamed, the columns at the zero-based indices
  6, 7, 8, 9 become the year columns 2025, 2024, 2023, 2022 in that order (and are made
  numeric, the other cells kept), and \<^verbatim>\<open>get_years()\<close> returns
  \<^verbatim>\<open>['2025','2024','2023','2022']\<close>; the call returns that frame or, when validation
  rejects it, raises \<^verbatim>\<open>ValidationError\<close>.
\<close>

theorem positional_fallback:
  assumes "length (headers raw) = 10"
      and "header_years E raw = []" and "row_years E raw = []"
  shows "get_years (snd (load E st (Some raw))) = [''2025'', ''2024'', ''2023'', ''2022'']
       \<and> (\<exists>f. l_df (snd (load E st (Some raw))) = Some f
             \<and> (fst (load E st (Some raw)) = Inr f
                 \<or> fst (load E st (Some raw)) = Inl ValidationError)
             \<and> columns f = [''Col1'', ''Concepto'', ''Col3'', ''Col4'', ''Col5'', ''Col6'',
                             ''2025'', ''2024'', ''2023'', ''2022'']
             \<and> columns f ! 6 = ''2025'' \<and> columns f ! 7 = ''2024''
             \<and> columns f ! 8 = ''2023'' \<and> columns f ! 9 = ''2022''
             \<and> length (cells f) = length (body raw)
             \<and> (\<forall>i < length (body raw). \<forall>k < 10.
                   cells f ! i ! k =
                     (if 6 \<le> k then to_numeric_fillna E (cell_at (body raw ! i) k)
                      else cell_at (body raw ! i) k)))"
proof -
  define f0 where "f0 = \<lparr>columns = default_columns,
                          cells = map (\<lambda>r. map (cell_at r) [0 ..< 10]) (body raw)\<rparr>"
  define f where "f = clean_frame E default_years f0"
  define st3 where "st3 = st\<lparr>l_raw_df := Some raw, l_df := Some f, l_years := default_years\<rparr>"
  have det: "detect_and_rename_columns E raw (st\<lparr>l_raw_df := Some raw\<rparr>) =
               Inr (st\<lparr>l_raw_df := Some raw, l_df := Some f0, l_years := default_years\<rparr>)"
    using assms by (simp add: detect_no_years set_columns_ten default_columns_length f0_def)
  have cl: "clean_data E (st\<lparr>l_raw_df := Some raw, l_df := Some f0, l_years := default_years\<rparr>)
              = st3"
    by (simp add: clean_data_def st3_def f_def)
  have ld: "load E st (Some raw) =
              (case validate_structure st3 of Inl e \<Rightarrow> (Inl e, st3) | Inr u \<Rightarrow> (Inr f, st3))"
    by (simp add: load_def Let_def det cl) (simp add: st3_def split: sum.splits)
  have val: "validate_structure st3 = Inr () \<or> validate_structure st3 = Inl ValidationError"
    by (auto simp: validate_structure_def Let_def split: option.splits)
  have snd_ld: "snd (load E st (Some raw)) = st3"
    unfolding ld by (simp split: sum.splits)
  have fst_ld: "fst (load E st (Some raw)) = Inr f
                 \<or> fst (load E st (Some raw)) = Inl ValidationError"
    unfolding ld using val by auto
  have cols: "columns f = default_columns"
    by (simp add: f_def f0_def clean_frame_def)
  have len: "length (cells f) = length (body raw)"
    by (simp add: f_def f0_def clean_frame_def)
  have cell: "cells f ! i ! k =
                (if 6 \<le> k then to_numeric_fillna E (cell_at (body raw ! i) k)
                 else cell_at (body raw ! i) k)"
    if "i < length (body raw)" "k < 10" for i k
    using that by (simp add: f_def f0_def clean_frame_def clean_default_cell)
  have years: "get_years (snd (load E st (Some raw))) = [''2025'', ''2024'', ''2023'', ''2022'']"
    by (simp add: snd_ld st3_def get_years_def default_years_def)
  have df: "l_df (snd (load E st (Some raw))) = Some f"
    by (simp add: snd_ld st3_def)
  from years df fst_ld cols len cell show ?thesis
    by (auto simp: default_columns_def)
qed

theorem positional_fallback_witness:
  "get_years (snd (load example_lib DataLoader (Some legacy_frame)))
     = [''2025'', ''2024'', ''2023'', ''2022'']
   \<and> loaded_columns (load example_lib DataLoader (Some legacy_frame)) ! 6 = ''2025''
   \<and> loaded_columns (load example_lib DataLoader (Some legacy_frame)) ! 9 = ''2022''"
proof -
  have a: "length (headers legacy_frame) = 10"
    and b: "header_years example_lib legacy_frame = []"
    and c: "row_years example_lib legacy_frame = []"
    by code_simp+
  from positional_fallback [OF a b c, of DataLoader] show ?thesis
    by (auto simp: loaded_columns_def)
qed

text \<open>
  The statement of the specification puts the year columns at the zero-based indices 7 to 10 and covers
  every grid of at least 10 columns. In the ten-column \<open>legacy_frame\<close> the column at index
  7 becomes \<open>2024\<close>, not \<open>2025\<close>, and there is no index 10; on the eleven-column
  \<open>wide_frame\<close>, with no year token either, \<^verbatim>\<open>load\<close> raises and \<^verbatim>\<open>get_years()\<close> is empty.
\<close>

theorem positional_fallback_indices:
  "loaded_columns (load example_lib DataLoader (Some legacy_frame)) ! 7 = ''2024''
   \<and> length (loaded_columns (load example_lib DataLoader (Some legacy_frame))) = 10
   \<and> length (headers wide_frame) = 11
   \<and> header_years example_lib wide_frame = [] \<and> row_years example_lib wide_frame = []
   \<and> fst (load example_lib DataLoader (Some wide_frame)) = Inl ValueError
   \<and> get_years (snd (load example_lib DataLoader (Some wide_frame))) = []"
  by code_simp

end
